theory Spec2Isabelle
  imports Main "HOL-Library.Word"
begin

section \<open>The breakpoint widget of the debugger (BreakpointWidget.cpp)\<close>

text \<open>
  The widget shows two collections of the emulated CPU's debugger, the instruction
  breakpoints and the memory checks, in one table, and forwards the user's edits to
  them. The model below follows \<^verbatim>\<open>Source/Core/DolphinQt/Debugger/BreakpointWidget.cpp\<close>
  function by function. Mutation is explicit state passing over the record \<open>widget\<close>;
  a dereference of a null pointer is the error value \<open>NullPointerDereference\<close>; the
  signals the widget emits are collected, oldest first, in the field \<open>emitted\<close>.

  Left out as presentation: the constructor and destructor, \<^verbatim>\<open>CreateWidgets\<close>,
  \<^verbatim>\<open>UpdateIcons\<close>, \<^verbatim>\<open>UpdateButtonsEnabled\<close>, the show and close events and the painting
  delegate. \<^verbatim>\<open>OnNewBreakpoint\<close> and \<^verbatim>\<open>OnEditBreakpoint\<close> execute a \<^verbatim>\<open>BreakpointDialog\<close>,
  whose code is in another file, and are not modelled. The \<^verbatim>\<open>QSignalBlocker\<close>s of the
  source block the signals of the \<^verbatim>\<open>Settings\<close> object while a memory check is added or
  removed; they do not touch the widget's own signals and have no part in the model.
\<close>

type_synonym u32 = "32 word"

subsection \<open>Table columns\<close>

text \<open>The anonymous enum \<^verbatim>\<open>TableColumns\<close>; \<^verbatim>\<open>edit\<close> and \<^verbatim>\<open>column()\<close> are C++ ints.\<close>

abbreviation ENABLED_COLUMN :: int where "ENABLED_COLUMN \<equiv> 0"
abbreviation TYPE_COLUMN :: int where "TYPE_COLUMN \<equiv> 1"
abbreviation SYMBOL_COLUMN :: int where "SYMBOL_COLUMN \<equiv> 2"
abbreviation ADDRESS_COLUMN :: int where "ADDRESS_COLUMN \<equiv> 3"
abbreviation END_ADDRESS_COLUMN :: int where "END_ADDRESS_COLUMN \<equiv> 4"
abbreviation BREAK_COLUMN :: int where "BREAK_COLUMN \<equiv> 5"
abbreviation LOG_COLUMN :: int where "LOG_COLUMN \<equiv> 6"
abbreviation READ_COLUMN :: int where "READ_COLUMN \<equiv> 7"
abbreviation WRITE_COLUMN :: int where "WRITE_COLUMN \<equiv> 8"
abbreviation CONDITION_COLUMN :: int where "CONDITION_COLUMN \<equiv> 9"

subsection \<open>Entries of the two stores\<close>

text \<open>
  Modelled from the spec: the declarations of \<^verbatim>\<open>TBreakPoint\<close> and \<^verbatim>\<open>TMemCheck\<close>
  (Core/PowerPC/BreakPoints.h) are not in the sources. The fields are those of the
  spec's data model (section 3) under the names this file reads and writes them by.
  The type \<open>'e\<close> is the parsed condition, \<^verbatim>\<open>Expression\<close>; \<^verbatim>\<open>std::optional\<close> is \<open>option\<close>.
  Both records have fields \<open>is_enabled\<close>, \<open>log_on_hit\<close>, \<open>break_on_hit\<close> and
  \<open>condition\<close>, so these are written with the record's name in front.
\<close>

record 'e TBreakPoint =
  address :: u32
  is_enabled :: bool
  is_temporary :: bool
  log_on_hit :: bool
  break_on_hit :: bool
  condition :: "'e option"

record 'e TMemCheck =
  start_address :: u32
  end_address :: u32
  is_enabled :: bool
  is_ranged :: bool
  is_break_on_read :: bool
  is_break_on_write :: bool
  log_on_hit :: bool
  break_on_hit :: bool
  condition :: "'e option"

subsection \<open>Collaborators outside this file\<close>

text \<open>
  What the widget calls but neither this file nor the spec defines is a parameter of
  the model, so every theorem holds whatever these functions compute:
  \<^item> \<open>toUInt16 str\<close> is Qt's \<^verbatim>\<open>QString::toUInt(&ok, 16)\<close>: \<open>Some v\<close> when \<^verbatim>\<open>ok\<close> is
    set and \<open>v\<close> is returned, \<open>None\<close> when \<^verbatim>\<open>ok\<close> is cleared;
  \<^item> \<open>TryParse\<close> and \<open>GetText\<close> are \<^verbatim>\<open>Expression::TryParse\<close> and
    \<^verbatim>\<open>Expression::GetText\<close>;
  \<^item> \<open>new_TBreakPoint\<close> and \<open>new_TMemCheck\<close> are the default-constructed entries
    (\<^verbatim>\<open>TBreakPoint bp;\<close>, \<^verbatim>\<open>TMemCheck check;\<close>): the values of the fields a function
    does not assign;
  \<^item> \<open>bp_AddFromStrings\<close>, \<open>bp_GetStrings\<close>, \<open>mc_AddFromStrings\<close> and
    \<open>mc_GetStrings\<close> are \<^verbatim>\<open>AddFromStrings\<close> and \<^verbatim>\<open>GetStrings\<close> of the two stores,
    the line format of the per-game file.
\<close>

record 'e externals =
  toUInt16 :: "string \<Rightarrow> u32 option"
  TryParse :: "string \<Rightarrow> 'e option"
  GetText :: "'e \<Rightarrow> string"
  new_TBreakPoint :: "'e TBreakPoint"
  new_TMemCheck :: "'e TMemCheck"
  bp_AddFromStrings :: "string list \<Rightarrow> 'e TBreakPoint list \<Rightarrow> 'e TBreakPoint list"
  bp_GetStrings :: "'e TBreakPoint list \<Rightarrow> string list"
  mc_AddFromStrings :: "string list \<Rightarrow> 'e TMemCheck list \<Rightarrow> 'e TMemCheck list"
  mc_GetStrings :: "'e TMemCheck list \<Rightarrow> string list"

subsection \<open>The instruction breakpoint store\<close>

text \<open>
  Modelled from the spec: the class \<^verbatim>\<open>BreakPoints\<close> (Core/PowerPC/BreakPoints.cpp) is not
  in the sources. The store is the spec's AddressBreakpointStore (section 4.1), a
  sequence in insertion order:
  \<^item> Get(address) gives the entry, if any; the C++ function returns a pointer, null
    when there is none;
  \<^item> Add(bp) "removes any prior entry at the same address first";
  \<^item> Remove(address) is a "no-op if absent";
  \<^item> ToggleEnabled(address) "flips is_enabled; fails silently (no-op) if absent";
  \<^item> Clear() empties the store.
  Entries are "unique by address within the store" (section 3), so Remove and
  ToggleEnabled, which here act on every entry at the address, act on the one entry
  there is. The widget's comment on its call of Add (line 545) reads "Add() for
  TBreakpoint doesn't check to see if it already exists"; on a store without an entry
  at the address the Add below is the plain append such an Add would be, and the
  widget's Remove leaves such a store whenever the edit keeps the address or moves
  it to a free one.
\<close>

definition BreakPoints_GetBreakpoint :: "u32 \<Rightarrow> 'e TBreakPoint list \<Rightarrow> 'e TBreakPoint option" where
  "BreakPoints_GetBreakpoint a bps = find (\<lambda>b. address b = a) bps"

definition BreakPoints_Remove :: "u32 \<Rightarrow> 'e TBreakPoint list \<Rightarrow> 'e TBreakPoint list" where
  "BreakPoints_Remove a bps = filter (\<lambda>b. address b \<noteq> a) bps"

definition BreakPoints_Add :: "'e TBreakPoint \<Rightarrow> 'e TBreakPoint list \<Rightarrow> 'e TBreakPoint list" where
  "BreakPoints_Add bp bps = filter (\<lambda>b. address b \<noteq> address bp) bps @ [bp]"

definition BreakPoints_ToggleBreakPoint :: "u32 \<Rightarrow> 'e TBreakPoint list \<Rightarrow> 'e TBreakPoint list" where
  "BreakPoints_ToggleBreakPoint a bps =
     map (\<lambda>b. if address b = a then b\<lparr>TBreakPoint.is_enabled := \<not> TBreakPoint.is_enabled b\<rparr> else b) bps"

definition BreakPoints_Clear :: "'e TBreakPoint list \<Rightarrow> 'e TBreakPoint list" where
  "BreakPoints_Clear bps = []"

text \<open>
  Modelled from the spec: the overload of Add that \<^verbatim>\<open>AddBP\<close> calls takes the fields of the
  entry one by one (address, temporary, break, log, condition) and is not in the sources
  either. It adds the entry with these fields by the rule of Add; the spec does not say
  what \<open>is_enabled\<close> of the new entry is, and a breakpoint just added is taken to be
  active.
\<close>

definition BreakPoints_Add_fields ::
  "'e externals \<Rightarrow> u32 \<Rightarrow> bool \<Rightarrow> bool \<Rightarrow> bool \<Rightarrow> 'e option \<Rightarrow> 'e TBreakPoint list \<Rightarrow> 'e TBreakPoint list" where
  "BreakPoints_Add_fields env addr temp break_on_hit' log_on_hit' condition' bps =
     BreakPoints_Add
       ((new_TBreakPoint env)\<lparr>address := addr, TBreakPoint.is_enabled := True, is_temporary := temp,
          TBreakPoint.log_on_hit := log_on_hit', TBreakPoint.break_on_hit := break_on_hit',
          TBreakPoint.condition := condition'\<rparr>) bps"

subsection \<open>The memory check store\<close>

text \<open>
  Modelled from the spec: the class \<^verbatim>\<open>MemChecks\<close> (Core/PowerPC/BreakPoints.cpp) is not in
  the sources. The store is the spec's MemoryWatchStore (section 4.2): the "same
  operation set, keyed by start_address", except that "Add is idempotent by
  start_address (replace-in-place)": an entry with the same start address is
  overwritten where it stands, and a new start address is appended.
\<close>

definition MemChecks_GetMemCheck :: "u32 \<Rightarrow> 'e TMemCheck list \<Rightarrow> 'e TMemCheck option" where
  "MemChecks_GetMemCheck a mcs = find (\<lambda>m. start_address m = a) mcs"

definition MemChecks_Remove :: "u32 \<Rightarrow> 'e TMemCheck list \<Rightarrow> 'e TMemCheck list" where
  "MemChecks_Remove a mcs = filter (\<lambda>m. start_address m \<noteq> a) mcs"

fun MemChecks_Add :: "'e TMemCheck \<Rightarrow> 'e TMemCheck list \<Rightarrow> 'e TMemCheck list" where
  "MemChecks_Add mc [] = [mc]"
| "MemChecks_Add mc (m # ms) =
     (if start_address m = start_address mc then mc # ms else m # MemChecks_Add mc ms)"

definition MemChecks_ToggleBreakPoint :: "u32 \<Rightarrow> 'e TMemCheck list \<Rightarrow> 'e TMemCheck list" where
  "MemChecks_ToggleBreakPoint a mcs =
     map (\<lambda>m. if start_address m = a then m\<lparr>TMemCheck.is_enabled := \<not> TMemCheck.is_enabled m\<rparr> else m) mcs"

definition MemChecks_Clear :: "'e TMemCheck list \<Rightarrow> 'e TMemCheck list" where
  "MemChecks_Clear mcs = []"

subsection \<open>The widget's state\<close>

text \<open>
  \<^item> \<open>breakpoints\<close>, \<open>memchecks\<close>: the two stores, reached in the source through
    \<^verbatim>\<open>m_system.GetPowerPC()\<close>;
  \<^item> \<open>m_table\<close>: the rows of the table widget. Of a row only the two pieces of data that
    \<^verbatim>\<open>Update\<close> stores in its first item and that the handlers read back are kept:
    \<^verbatim>\<open>ADDRESS_ROLE\<close> and \<^verbatim>\<open>IS_MEMCHECK_ROLE\<close>;
  \<^item> \<open>isVisible\<close>: whether the dock widget is shown (\<^verbatim>\<open>Update\<close> does nothing otherwise);
  \<^item> \<open>emitted\<close>: the signals emitted so far;
  \<^item> \<open>game_ini\<close>: the per-game configuration file on disk, \<open>None\<close> when there is no such
    file, else its sections, each a list of lines.
\<close>

datatype signal = BreakpointsChanged | ShowCode u32 | ShowMemory u32

datatype error = NullPointerDereference

type_synonym IniFile = "string \<rightharpoonup> string list"

record 'e widget =
  breakpoints :: "'e TBreakPoint list"
  memchecks :: "'e TMemCheck list"
  m_table :: "(u32 \<times> bool) list"
  isVisible :: bool
  emitted :: "signal list"
  game_ini :: "IniFile option"

definition emit :: "signal \<Rightarrow> 'e widget \<Rightarrow> 'e widget" where
  "emit sig s = s\<lparr>emitted := emitted s @ [sig]\<rparr>"

text \<open>\<^verbatim>\<open>m_table->item(row, 0)\<close>: the first item of a row, null when there is no such row.\<close>

definition table_item :: "(u32 \<times> bool) list \<Rightarrow> int \<Rightarrow> (u32 \<times> bool) option" where
  "table_item rows row =
     (if 0 \<le> row \<and> nat row < length rows then Some (rows ! nat row) else None)"

text \<open>
  \<^verbatim>\<open>Update\<close> redraws the table from the two stores, breakpoints first, when the widget is
  visible. The texts and icons of the cells are presentation and are left out.
\<close>

definition Update :: "'e widget \<Rightarrow> 'e widget" where
  "Update s =
     (if \<not> isVisible s then s
      else s\<lparr>m_table := map (\<lambda>bp. (address bp, False)) (breakpoints s)
                        @ map (\<lambda>mbp. (start_address mbp, True)) (memchecks s)\<rparr>)"

subsection \<open>Handlers and widget functions\<close>

text \<open>
  \<^verbatim>\<open>EditBreakpoint(address, edit, string)\<close>. The pointer \<^verbatim>\<open>old_bp\<close> returned by
  \<^verbatim>\<open>GetBreakpoint\<close> is dereferenced without a test, so a missing entry is the error. A
  string that does not parse returns before anything is written or emitted.
\<close>

definition EditBreakpoint ::
  "'e externals \<Rightarrow> 'e widget \<Rightarrow> u32 \<Rightarrow> int \<Rightarrow> string option \<Rightarrow> error + 'e widget" where
  "EditBreakpoint env s address' edit string =
     (case BreakPoints_GetBreakpoint address' (breakpoints s) of
        None \<Rightarrow> Inl NullPointerDereference
      | Some old_bp \<Rightarrow>
          let bp = (new_TBreakPoint env)\<lparr>
                TBreakPoint.is_enabled :=
                  (if edit = ENABLED_COLUMN then \<not> TBreakPoint.is_enabled old_bp
                   else TBreakPoint.is_enabled old_bp),
                TBreakPoint.log_on_hit :=
                  (if edit = LOG_COLUMN then \<not> TBreakPoint.log_on_hit old_bp
                   else TBreakPoint.log_on_hit old_bp),
                TBreakPoint.break_on_hit :=
                  (if edit = BREAK_COLUMN then \<not> TBreakPoint.break_on_hit old_bp
                   else TBreakPoint.break_on_hit old_bp)\<rparr>
          in
          (case (if edit = ADDRESS_COLUMN \<and> string \<noteq> None
                 then toUInt16 env (the string)
                 else Some address') of
             None \<Rightarrow> Inr s
           | Some new_address \<Rightarrow>
               let bp = bp\<lparr>address := new_address\<rparr>;
                   bp = (if edit = CONDITION_COLUMN \<and> string \<noteq> None
                         then bp\<lparr>TBreakPoint.condition := TryParse env (the string)\<rparr>
                         else if TBreakPoint.condition old_bp \<noteq> None \<and> edit \<noteq> CONDITION_COLUMN
                         then bp\<lparr>TBreakPoint.condition :=
                                  TryParse env (GetText env (the (TBreakPoint.condition old_bp)))\<rparr>
                         else bp);
                   s = s\<lparr>breakpoints := BreakPoints_Remove address' (breakpoints s)\<rparr>;
                   s = s\<lparr>breakpoints := BreakPoints_Add bp (breakpoints s)\<rparr>
               in Inr (Update (emit BreakpointsChanged s))))"

text \<open>
  \<^verbatim>\<open>EditMBP(address, edit, string)\<close>. The triple computed first is
  (\<^verbatim>\<open>mbp.start_address\<close>, \<^verbatim>\<open>mbp.end_address\<close>, \<^verbatim>\<open>address_changed\<close>), or \<open>None\<close> where the
  source returns because the string does not parse. The entry is added and then, when
  \<^verbatim>\<open>address_changed\<close> is set, the entry at the address passed in is removed.
\<close>

definition EditMBP ::
  "'e externals \<Rightarrow> 'e widget \<Rightarrow> u32 \<Rightarrow> int \<Rightarrow> string option \<Rightarrow> error + 'e widget" where
  "EditMBP env s address' edit string =
     (case MemChecks_GetMemCheck address' (memchecks s) of
        None \<Rightarrow> Inl NullPointerDereference
      | Some old_mbp \<Rightarrow>
          let mbp = (new_TMemCheck env)\<lparr>
                TMemCheck.is_enabled :=
                  (if edit = ENABLED_COLUMN then \<not> TMemCheck.is_enabled old_mbp
                   else TMemCheck.is_enabled old_mbp),
                TMemCheck.log_on_hit :=
                  (if edit = LOG_COLUMN then \<not> TMemCheck.log_on_hit old_mbp
                   else TMemCheck.log_on_hit old_mbp),
                TMemCheck.break_on_hit :=
                  (if edit = BREAK_COLUMN then \<not> TMemCheck.break_on_hit old_mbp
                   else TMemCheck.break_on_hit old_mbp),
                is_break_on_read :=
                  (if edit = READ_COLUMN then \<not> is_break_on_read old_mbp
                   else is_break_on_read old_mbp),
                is_break_on_write :=
                  (if edit = WRITE_COLUMN then \<not> is_break_on_write old_mbp
                   else is_break_on_write old_mbp)\<rparr>
          in
          (case (if (edit = ADDRESS_COLUMN \<or> edit = END_ADDRESS_COLUMN) \<and> string \<noteq> None
                 then (case toUInt16 env (the string) of
                         None \<Rightarrow> None
                       | Some new_address \<Rightarrow>
                           if edit = ADDRESS_COLUMN
                           then Some (new_address, end_address old_mbp, True)
                           else Some (start_address old_mbp, new_address, False))
                 else Some (start_address old_mbp, end_address old_mbp, False)) of
             None \<Rightarrow> Inr s
           | Some (start, end', address_changed) \<Rightarrow>
               let mbp = mbp\<lparr>start_address := start, end_address := end'\<rparr>;
                   mbp = mbp\<lparr>is_ranged := (start_address mbp \<noteq> end_address mbp)\<rparr>;
                   mbp = (if edit = CONDITION_COLUMN \<and> string \<noteq> None
                          then mbp\<lparr>TMemCheck.condition := TryParse env (the string)\<rparr>
                          else if TMemCheck.condition old_mbp \<noteq> None \<and> edit \<noteq> CONDITION_COLUMN
                          then mbp\<lparr>TMemCheck.condition :=
                                    TryParse env (GetText env (the (TMemCheck.condition old_mbp)))\<rparr>
                          else mbp);
                   s = s\<lparr>memchecks := MemChecks_Add mbp (memchecks s)\<rparr>;
                   s = (if address_changed
                        then s\<lparr>memchecks := MemChecks_Remove address' (memchecks s)\<rparr>
                        else s)
               in Inr (Update (emit BreakpointsChanged s))))"

text \<open>
  \<^verbatim>\<open>OnClicked(item)\<close>. The item is null (\<open>None\<close>) or stands at a row and a column of the
  table. In the branch of \<^verbatim>\<open>ENABLED_COLUMN\<close> the item clicked is itself the first item of
  its row, so its \<^verbatim>\<open>IS_MEMCHECK_ROLE\<close> is the row's.
\<close>

definition OnClicked ::
  "'e externals \<Rightarrow> 'e widget \<Rightarrow> (int \<times> int) option \<Rightarrow> error + 'e widget" where
  "OnClicked env s item =
     (case item of
        None \<Rightarrow> Inr s
      | Some (row, column) \<Rightarrow>
          if column = ADDRESS_COLUMN \<or> column = END_ADDRESS_COLUMN then Inr s
          else
            (case table_item (m_table s) row of
               None \<Rightarrow> Inl NullPointerDereference
             | Some (address', is_memcheck) \<Rightarrow>
                 if column = ENABLED_COLUMN then
                   let s = (if is_memcheck
                            then s\<lparr>memchecks := MemChecks_ToggleBreakPoint address' (memchecks s)\<rparr>
                            else s\<lparr>breakpoints := BreakPoints_ToggleBreakPoint address' (breakpoints s)\<rparr>)
                   in Inr (Update (emit BreakpointsChanged s))
                 else if is_memcheck then EditMBP env s address' column None
                 else EditBreakpoint env s address' column None))"

text \<open>
  \<^verbatim>\<open>OnClear\<close>. \<^verbatim>\<open>ClearAllBreakpoints\<close> and \<^verbatim>\<open>ClearAllMemChecks\<close> of the debug interface (not
  in the sources) are the Clear of the two stores.
\<close>

definition OnClear :: "'e widget \<Rightarrow> 'e widget" where
  "OnClear s =
     (let s = s\<lparr>breakpoints := BreakPoints_Clear (breakpoints s)\<rparr>;
          s = s\<lparr>memchecks := MemChecks_Clear (memchecks s)\<rparr>;
          s = s\<lparr>m_table := []\<rparr>
      in Update (emit BreakpointsChanged s))"

text \<open>
  \<^verbatim>\<open>OnLoad\<close>. \<^verbatim>\<open>ini.Load\<close> fails when the file is missing; \<^verbatim>\<open>ini.GetLines\<close> fails when the
  section is missing (\<^verbatim>\<open>Common::IniFile\<close> is not in the sources).
\<close>

definition OnLoad :: "'e externals \<Rightarrow> 'e widget \<Rightarrow> 'e widget" where
  "OnLoad env s =
     (case game_ini s of
        None \<Rightarrow> s
      | Some ini \<Rightarrow>
          let s = (case ini ''BreakPoints'' of
                     None \<Rightarrow> s
                   | Some new_bps \<Rightarrow>
                       s\<lparr>breakpoints :=
                           bp_AddFromStrings env new_bps (BreakPoints_Clear (breakpoints s))\<rparr>);
              s = (case ini ''MemoryBreakPoints'' of
                     None \<Rightarrow> s
                   | Some new_mcs \<Rightarrow>
                       s\<lparr>memchecks :=
                           mc_AddFromStrings env new_mcs (MemChecks_Clear (memchecks s))\<rparr>)
          in Update (emit BreakpointsChanged s))"

text \<open>
  \<^verbatim>\<open>OnSave\<close>. The result of \<^verbatim>\<open>ini.Load\<close> is not looked at: a missing file leaves \<^verbatim>\<open>ini\<close>
  empty. \<^verbatim>\<open>ini.SetLines\<close> sets the lines of a section, and \<^verbatim>\<open>ini.Save\<close> writes the file.
\<close>

definition OnSave :: "'e externals \<Rightarrow> 'e widget \<Rightarrow> 'e widget" where
  "OnSave env s =
     (let ini = (case game_ini s of None \<Rightarrow> Map.empty | Some f \<Rightarrow> f);
          ini = ini(''BreakPoints'' \<mapsto> bp_GetStrings env (breakpoints s));
          ini = ini(''MemoryBreakPoints'' \<mapsto> mc_GetStrings env (memchecks s))
      in s\<lparr>game_ini := Some ini\<rparr>)"

text \<open>
  \<^verbatim>\<open>OnContextMenu(pos)\<close>. \<open>row\<close> is \<^verbatim>\<open>m_table->rowAt(pos.y())\<close>, and \<open>chosen\<close> is the action
  the user picks when the menu is executed (\<open>None\<close>: the menu is dismissed). The action
  "Edit..." opens a \<^verbatim>\<open>BreakpointDialog\<close>, whose code is not in the sources; it is not
  among the actions modelled.
\<close>

datatype menu_action = Show | Delete

definition OnContextMenu :: "'e widget \<Rightarrow> int \<Rightarrow> menu_action option \<Rightarrow> 'e widget" where
  "OnContextMenu s row chosen =
     (case table_item (m_table s) row of
        None \<Rightarrow> s
      | Some (bp_address, is_memory_breakpoint) \<Rightarrow>
          if \<not> is_memory_breakpoint then
            (case find (\<lambda>bp. address bp = bp_address) (breakpoints s) of
               None \<Rightarrow> s
             | Some bp \<Rightarrow>
                 (case chosen of
                    None \<Rightarrow> s
                  | Some Show \<Rightarrow> emit (ShowCode bp_address) s
                  | Some Delete \<Rightarrow>
                      Update (emit BreakpointsChanged
                        (s\<lparr>breakpoints := BreakPoints_Remove bp_address (breakpoints s)\<rparr>))))
          else
            (case find (\<lambda>bp. start_address bp = bp_address) (memchecks s) of
               None \<Rightarrow> s
             | Some bp \<Rightarrow>
                 (case chosen of
                    None \<Rightarrow> s
                  | Some Show \<Rightarrow> emit (ShowMemory bp_address) s
                  | Some Delete \<Rightarrow>
                      Update (emit BreakpointsChanged
                        (s\<lparr>memchecks := MemChecks_Remove bp_address (memchecks s)\<rparr>)))))"

text \<open>\<^verbatim>\<open>AddBP\<close>, in its two overloads. An empty condition text is no condition.\<close>

definition AddBP_fields ::
  "'e externals \<Rightarrow> 'e widget \<Rightarrow> u32 \<Rightarrow> bool \<Rightarrow> bool \<Rightarrow> bool \<Rightarrow> string \<Rightarrow> 'e widget" where
  "AddBP_fields env s addr temp break_on_hit' log_on_hit' condition' =
     (let s = s\<lparr>breakpoints :=
                  BreakPoints_Add_fields env addr temp break_on_hit' log_on_hit'
                    (if condition' \<noteq> [] then TryParse env condition' else None)
                    (breakpoints s)\<rparr>
      in Update (emit BreakpointsChanged s))"

definition AddBP :: "'e externals \<Rightarrow> 'e widget \<Rightarrow> u32 \<Rightarrow> 'e widget" where
  "AddBP env s addr = AddBP_fields env s addr False True True []"

text \<open>\<^verbatim>\<open>AddAddressMBP\<close> and \<^verbatim>\<open>AddRangedMBP\<close>.\<close>

definition AddAddressMBP ::
  "'e externals \<Rightarrow> 'e widget \<Rightarrow> u32 \<Rightarrow> bool \<Rightarrow> bool \<Rightarrow> bool \<Rightarrow> bool \<Rightarrow> string \<Rightarrow> 'e widget" where
  "AddAddressMBP env s addr on_read on_write do_log do_break condition' =
     (let check = (new_TMemCheck env)\<lparr>
            start_address := addr,
            end_address := addr,
            is_ranged := False,
            is_break_on_read := on_read,
            is_break_on_write := on_write,
            TMemCheck.log_on_hit := do_log,
            TMemCheck.break_on_hit := do_break,
            TMemCheck.condition := (if condition' \<noteq> [] then TryParse env condition' else None)\<rparr>;
          s = s\<lparr>memchecks := MemChecks_Add check (memchecks s)\<rparr>
      in Update (emit BreakpointsChanged s))"

definition AddRangedMBP ::
  "'e externals \<Rightarrow> 'e widget \<Rightarrow> u32 \<Rightarrow> u32 \<Rightarrow> bool \<Rightarrow> bool \<Rightarrow> bool \<Rightarrow> bool \<Rightarrow> string \<Rightarrow> 'e widget" where
  "AddRangedMBP env s from to on_read on_write do_log do_break condition' =
     (let check = (new_TMemCheck env)\<lparr>
            start_address := from,
            end_address := to,
            is_ranged := True,
            is_break_on_read := on_read,
            is_break_on_write := on_write,
            TMemCheck.log_on_hit := do_log,
            TMemCheck.break_on_hit := do_break,
            TMemCheck.condition := (if condition' \<noteq> [] then TryParse env condition' else None)\<rparr>;
          s = s\<lparr>memchecks := MemChecks_Add check (memchecks s)\<rparr>
      in Update (emit BreakpointsChanged s))"

subsection \<open>The widget's interface as one step function\<close>

text \<open>
  The slots and public functions above as the calls a user or another widget can make,
  and runs of such calls; a run stops at the first error.
\<close>

datatype widget_call =
    Call_OnClicked "(int \<times> int) option"
  | Call_OnClear
  | Call_OnLoad
  | Call_OnSave
  | Call_OnContextMenu int "menu_action option"
  | Call_AddBP u32
  | Call_AddBP_fields u32 bool bool bool string
  | Call_AddAddressMBP u32 bool bool bool bool string
  | Call_AddRangedMBP u32 u32 bool bool bool bool string
  | Call_EditBreakpoint u32 int "string option"
  | Call_EditMBP u32 int "string option"

fun call :: "'e externals \<Rightarrow> 'e widget \<Rightarrow> widget_call \<Rightarrow> error + 'e widget" where
  "call env s (Call_OnClicked item) = OnClicked env s item"
| "call env s Call_OnClear = Inr (OnClear s)"
| "call env s Call_OnLoad = Inr (OnLoad env s)"
| "call env s Call_OnSave = Inr (OnSave env s)"
| "call env s (Call_OnContextMenu row chosen) = Inr (OnContextMenu s row chosen)"
| "call env s (Call_AddBP addr) = Inr (AddBP env s addr)"
| "call env s (Call_AddBP_fields addr temp brk lg cond) = Inr (AddBP_fields env s addr temp brk lg cond)"
| "call env s (Call_AddAddressMBP addr r w lg brk cond) = Inr (AddAddressMBP env s addr r w lg brk cond)"
| "call env s (Call_AddRangedMBP from to r w lg brk cond) = Inr (AddRangedMBP env s from to r w lg brk cond)"
| "call env s (Call_EditBreakpoint a edit string) = EditBreakpoint env s a edit string"
| "call env s (Call_EditMBP a edit string) = EditMBP env s a edit string"

fun calls :: "'e externals \<Rightarrow> 'e widget \<Rightarrow> widget_call list \<Rightarrow> error + 'e widget" where
  "calls env s [] = Inr s"
| "calls env s (c # cs) = (case call env s c of Inl e \<Rightarrow> Inl e | Inr s' \<Rightarrow> calls env s' cs)"

text \<open>
  What a call shows: it returns, and a signal was emitted or the table was redrawn
  differently. A validation failure brought to the user's eyes would be such a change.
\<close>

definition shown :: "'e widget \<Rightarrow> error + 'e widget \<Rightarrow> bool" where
  "shown s r =
     (case r of
        Inl e \<Rightarrow> False
      | Inr s' \<Rightarrow> \<not> (emitted s' = emitted s \<and> m_table s' = m_table s))"


definition unique_start_addresses :: "'e TMemCheck list \<Rightarrow> bool" where
  "unique_start_addresses mcs = distinct (map start_address mcs)"

text \<open>The invariant claimed of a memory check: ranged exactly when its two ends differ.\<close>

definition ranged_iff_ends_differ :: "'e TMemCheck \<Rightarrow> bool" where
  "ranged_iff_ends_differ m = (is_ranged m = (start_address m \<noteq> end_address m))"

subsection \<open>A concrete instance, for running the model\<close>

text \<open>
  An instance of the collaborators, on which the functions above can be evaluated: plain
  strings of hexadecimal digits parse to their 32-bit value; a condition is kept as its
  text, and every text that is not empty parses; a default-constructed breakpoint has
  every flag cleared; the line format of the file is one address per line.
\<close>

definition hex_digit :: "char \<Rightarrow> int option" where
  "hex_digit c =
     (let n = (of_char c :: int) in
      if 48 \<le> n \<and> n \<le> 57 then Some (n - 48)
      else if 97 \<le> n \<and> n \<le> 102 then Some (n - 87)
      else if 65 \<le> n \<and> n \<le> 70 then Some (n - 55)
      else None)"

fun hex_value :: "int \<Rightarrow> string \<Rightarrow> int option" where
  "hex_value acc [] = Some acc"
| "hex_value acc (c # cs) =
     (case hex_digit c of None \<Rightarrow> None | Some d \<Rightarrow> hex_value (16 * acc + d) cs)"

definition hex_toUInt :: "string \<Rightarrow> u32 option" where
  "hex_toUInt str =
     (if str = [] then None
      else (case hex_value 0 str of
              None \<Rightarrow> None
            | Some n \<Rightarrow> if n < 2 ^ 32 then Some (of_int n) else None))"

definition hex_char :: "int \<Rightarrow> char" where
  "hex_char d = (if d < 10 then char_of (48 + d) else char_of (87 + d))"

fun hex_string :: "nat \<Rightarrow> int \<Rightarrow> string" where
  "hex_string 0 n = []"
| "hex_string (Suc k) n = hex_string k (n div 16) @ [hex_char (n mod 16)]"

definition example_new_TBreakPoint :: "string TBreakPoint" where
  "example_new_TBreakPoint =
     \<lparr>address = 0, TBreakPoint.is_enabled = False, is_temporary = False,
      TBreakPoint.log_on_hit = False, TBreakPoint.break_on_hit = False,
      TBreakPoint.condition = None\<rparr>"

definition example_new_TMemCheck :: "string TMemCheck" where
  "example_new_TMemCheck =
     \<lparr>start_address = 0, end_address = 0, TMemCheck.is_enabled = True, is_ranged = False,
      is_break_on_read = True, is_break_on_write = True,
      TMemCheck.log_on_hit = True, TMemCheck.break_on_hit = True,
      TMemCheck.condition = None\<rparr>"

definition example_env :: "string externals" where
  "example_env =
     \<lparr>toUInt16 = hex_toUInt,
      TryParse = (\<lambda>text. if text = [] then None else Some text),
      GetText = (\<lambda>e. e),
      new_TBreakPoint = example_new_TBreakPoint,
      new_TMemCheck = example_new_TMemCheck,
      bp_AddFromStrings =
        (\<lambda>lines bps.
           fold (\<lambda>l acc. case hex_toUInt l of
                            None \<Rightarrow> acc
                          | Some a \<Rightarrow>
                              BreakPoints_Add
                                (example_new_TBreakPoint\<lparr>address := a, TBreakPoint.is_enabled := True\<rparr>) acc)
             lines bps),
      bp_GetStrings = map (\<lambda>b. hex_string 8 (uint (address b))),
      mc_AddFromStrings =
        (\<lambda>lines mcs.
           fold (\<lambda>l acc. case hex_toUInt l of
                            None \<Rightarrow> acc
                          | Some a \<Rightarrow>
                              MemChecks_Add
                                (example_new_TMemCheck\<lparr>start_address := a, end_address := a\<rparr>) acc)
             lines mcs),
      mc_GetStrings = map (\<lambda>m. hex_string 8 (uint (start_address m)))\<rparr>"

text \<open>
  A widget with a breakpoint at 80003000 under a condition, a temporary breakpoint at
  80003abc and a ranged memory check on writes to 80004000 - 80004010; the table is drawn
  and there is no per-game file yet.
\<close>

definition example_bp :: "string TBreakPoint" where
  "example_bp =
     \<lparr>address = 0x80003000, TBreakPoint.is_enabled = True, is_temporary = False,
      TBreakPoint.log_on_hit = True, TBreakPoint.break_on_hit = True,
      TBreakPoint.condition = Some ''r3 == 5''\<rparr>"

definition example_temp_bp :: "string TBreakPoint" where
  "example_temp_bp =
     \<lparr>address = 0x80003abc, TBreakPoint.is_enabled = True, is_temporary = True,
      TBreakPoint.log_on_hit = False, TBreakPoint.break_on_hit = True,
      TBreakPoint.condition = None\<rparr>"

definition example_mbp :: "string TMemCheck" where
  "example_mbp =
     \<lparr>start_address = 0x80004000, end_address = 0x80004010, TMemCheck.is_enabled = True,
      is_ranged = True, is_break_on_read = False, is_break_on_write = True,
      TMemCheck.log_on_hit = True, TMemCheck.break_on_hit = True,
      TMemCheck.condition = None\<rparr>"

definition example_widget :: "string widget" where
  "example_widget =
     \<lparr>breakpoints = [example_bp, example_temp_bp],
      memchecks = [example_mbp],
      m_table = [(0x80003000, False), (0x80003abc, False), (0x80004000, True)],
      isVisible = True,
      emitted = [],
      game_ini = None\<rparr>"

text \<open>
  The same widget with a per-game file that holds one breakpoint and no section of
  memory checks.
\<close>

definition example_ini :: IniFile where
  "example_ini = [''BreakPoints'' \<mapsto> [''80003100'']]"

definition example_widget_with_file :: "string widget" where
  "example_widget_with_file = example_widget\<lparr>game_ini := Some example_ini\<rparr>"

section \<open>Properties of the two stores\<close>

lemma find_None_filter_neq: "find (\<lambda>x. f x = a) (filter (\<lambda>x. f x \<noteq> a) xs) = None"
  by (induction xs) auto


lemma GetBreakpoint_address: "BreakPoints_GetBreakpoint a bps = Some b \<Longrightarrow> address b = a \<and> b \<in> set bps"
  by (auto simp: BreakPoints_GetBreakpoint_def find_Some_iff)




lemma distinct_map_filter': "distinct (map f xs) \<Longrightarrow> distinct (map f (filter P xs))"
  by (induction xs) auto




lemma GetBreakpoint_Add_same:
  "BreakPoints_GetBreakpoint (address bp) (BreakPoints_Add bp bps) = Some bp"
  unfolding BreakPoints_GetBreakpoint_def BreakPoints_Add_def
  by (induction bps) auto


lemma BreakPoints_Toggle_twice:
  "BreakPoints_ToggleBreakPoint a (BreakPoints_ToggleBreakPoint a bps) = bps"
  unfolding BreakPoints_ToggleBreakPoint_def
  by (induction bps) auto

lemma MemChecks_Toggle_twice:
  "MemChecks_ToggleBreakPoint a (MemChecks_ToggleBreakPoint a mcs) = mcs"
  unfolding MemChecks_ToggleBreakPoint_def
  by (induction mcs) auto

lemma map_address_Toggle: "map address (BreakPoints_ToggleBreakPoint a bps) = map address bps"
  unfolding BreakPoints_ToggleBreakPoint_def by (induction bps) auto

lemma map_start_address_Toggle:
  "map start_address (MemChecks_ToggleBreakPoint a mcs) = map start_address mcs"
  unfolding MemChecks_ToggleBreakPoint_def by (induction mcs) auto

lemma GetMemCheck_start: "MemChecks_GetMemCheck a mcs = Some m \<Longrightarrow> start_address m = a \<and> m \<in> set mcs"
  by (auto simp: MemChecks_GetMemCheck_def find_Some_iff)

lemma GetMemCheck_Remove: "MemChecks_GetMemCheck a (MemChecks_Remove a mcs) = None"
  by (simp add: MemChecks_GetMemCheck_def MemChecks_Remove_def find_None_filter_neq)

lemma MemChecks_Remove_Add_same:
  "start_address mc = a \<Longrightarrow> MemChecks_Remove a (MemChecks_Add mc mcs) = MemChecks_Remove a mcs"
  unfolding MemChecks_Remove_def by (induction mcs) auto

lemma GetMemCheck_Add_same: "MemChecks_GetMemCheck (start_address mc) (MemChecks_Add mc mcs) = Some mc"
  unfolding MemChecks_GetMemCheck_def by (induction mcs) auto

lemma GetMemCheck_Add_other:
  "a \<noteq> start_address mc \<Longrightarrow> MemChecks_GetMemCheck a (MemChecks_Add mc mcs) = MemChecks_GetMemCheck a mcs"
  unfolding MemChecks_GetMemCheck_def by (induction mcs) auto

lemma map_start_address_Add:
  "map start_address (MemChecks_Add mc mcs) =
     (if start_address mc \<in> set (map start_address mcs) then map start_address mcs
      else map start_address mcs @ [start_address mc])"
  by (induction mcs) auto

lemma length_MemChecks_Add:
  "length (MemChecks_Add mc mcs) =
     (if start_address mc \<in> start_address ` set mcs then length mcs else Suc (length mcs))"
  by (induction mcs) auto

lemma unique_start_addresses_Add:
  "unique_start_addresses mcs \<Longrightarrow> unique_start_addresses (MemChecks_Add mc mcs)"
  by (simp add: unique_start_addresses_def map_start_address_Add)

lemma unique_start_addresses_Remove:
  "unique_start_addresses mcs \<Longrightarrow> unique_start_addresses (MemChecks_Remove a mcs)"
  by (simp add: unique_start_addresses_def MemChecks_Remove_def distinct_map_filter')

lemma distinct_map_count_le1:
  "distinct (map f xs) \<Longrightarrow> length (filter (\<lambda>x. f x = a) xs) = (if a \<in> f ` set xs then 1 else 0)"
  by (induction xs) (auto simp: filter_empty_conv)

lemma MemChecks_Add_one_at_start:
  assumes "unique_start_addresses mcs"
  shows "length (filter (\<lambda>m. start_address m = start_address mc) (MemChecks_Add mc mcs)) = 1"
proof -
  have "distinct (map start_address (MemChecks_Add mc mcs))"
    using unique_start_addresses_Add [OF assms] by (simp add: unique_start_addresses_def)
  moreover have "start_address mc \<in> start_address ` set (MemChecks_Add mc mcs)"
    using GetMemCheck_Add_same [of mc mcs] GetMemCheck_start by force
  ultimately show ?thesis by (simp add: distinct_map_count_le1)
qed

section \<open>Redrawing and emitting\<close>

lemma Update_fields [simp]:
  "breakpoints (Update s) = breakpoints s"
  "memchecks (Update s) = memchecks s"
  "emitted (Update s) = emitted s"
  "game_ini (Update s) = game_ini s"
  "isVisible (Update s) = isVisible s"
  by (simp_all add: Update_def)

lemma emit_fields [simp]:
  "breakpoints (emit sig s) = breakpoints s"
  "memchecks (emit sig s) = memchecks s"
  "emitted (emit sig s) = emitted s @ [sig]"
  "game_ini (emit sig s) = game_ini s"
  "m_table (emit sig s) = m_table s"
  "isVisible (emit sig s) = isVisible s"
  by (simp_all add: emit_def)

section \<open>The three ways EditBreakpoint ends\<close>

lemma EditBreakpoint_missing:
  "BreakPoints_GetBreakpoint a (breakpoints s) = None \<Longrightarrow>
   EditBreakpoint env s a edit string = Inl NullPointerDereference"
  by (simp add: EditBreakpoint_def)

lemma EditBreakpoint_rejected:
  "BreakPoints_GetBreakpoint a (breakpoints s) = Some old \<Longrightarrow> toUInt16 env str = None \<Longrightarrow>
   EditBreakpoint env s a ADDRESS_COLUMN (Some str) = Inr s"
  by (simp add: EditBreakpoint_def)

lemma EditBreakpoint_done:
  assumes "BreakPoints_GetBreakpoint a (breakpoints s) = Some old"
    and "(if edit = ADDRESS_COLUMN \<and> string \<noteq> None then toUInt16 env (the string) else Some a) = Some b"
  shows "\<exists>bp. address bp = b
      \<and> TBreakPoint.is_enabled bp = (if edit = ENABLED_COLUMN then \<not> TBreakPoint.is_enabled old else TBreakPoint.is_enabled old)
      \<and> TBreakPoint.log_on_hit bp = (if edit = LOG_COLUMN then \<not> TBreakPoint.log_on_hit old else TBreakPoint.log_on_hit old)
      \<and> TBreakPoint.break_on_hit bp = (if edit = BREAK_COLUMN then \<not> TBreakPoint.break_on_hit old else TBreakPoint.break_on_hit old)
      \<and> is_temporary bp = is_temporary (new_TBreakPoint env)
      \<and> EditBreakpoint env s a edit string =
          Inr (Update (emit BreakpointsChanged
            (s\<lparr>breakpoints := BreakPoints_Add bp (BreakPoints_Remove a (breakpoints s))\<rparr>)))"
proof -
  let ?bp0 = "(new_TBreakPoint env)\<lparr>
      TBreakPoint.is_enabled :=
        (if edit = ENABLED_COLUMN then \<not> TBreakPoint.is_enabled old else TBreakPoint.is_enabled old),
      TBreakPoint.log_on_hit :=
        (if edit = LOG_COLUMN then \<not> TBreakPoint.log_on_hit old else TBreakPoint.log_on_hit old),
      TBreakPoint.break_on_hit :=
        (if edit = BREAK_COLUMN then \<not> TBreakPoint.break_on_hit old else TBreakPoint.break_on_hit old),
      address := b\<rparr>"
  let ?bp = "if edit = CONDITION_COLUMN \<and> string \<noteq> None
      then ?bp0\<lparr>TBreakPoint.condition := TryParse env (the string)\<rparr>
      else if TBreakPoint.condition old \<noteq> None \<and> edit \<noteq> CONDITION_COLUMN
      then ?bp0\<lparr>TBreakPoint.condition := TryParse env (GetText env (the (TBreakPoint.condition old)))\<rparr>
      else ?bp0"
  have run: "EditBreakpoint env s a edit string =
      Inr (Update (emit BreakpointsChanged
        (s\<lparr>breakpoints := BreakPoints_Add ?bp (BreakPoints_Remove a (breakpoints s))\<rparr>)))"
    using assms by (simp add: EditBreakpoint_def Let_def)
  have "address ?bp = b" by simp
  moreover have "TBreakPoint.is_enabled ?bp =
      (if edit = ENABLED_COLUMN then \<not> TBreakPoint.is_enabled old else TBreakPoint.is_enabled old)"
    by simp
  moreover have "TBreakPoint.log_on_hit ?bp =
      (if edit = LOG_COLUMN then \<not> TBreakPoint.log_on_hit old else TBreakPoint.log_on_hit old)"
    by simp
  moreover have "TBreakPoint.break_on_hit ?bp =
      (if edit = BREAK_COLUMN then \<not> TBreakPoint.break_on_hit old else TBreakPoint.break_on_hit old)"
    by simp
  moreover have "is_temporary ?bp = is_temporary (new_TBreakPoint env)" by simp
  ultimately show ?thesis using run by blast
qed

lemma EditBreakpoint_ignores_end_address_text:
  "EditBreakpoint env s a END_ADDRESS_COLUMN (Some str) = EditBreakpoint env s a END_ADDRESS_COLUMN None"
  by (cases "BreakPoints_GetBreakpoint a (breakpoints s)") (simp_all add: EditBreakpoint_def Let_def)

section \<open>The three ways EditMBP ends\<close>

lemma EditMBP_missing:
  "MemChecks_GetMemCheck a (memchecks s) = None \<Longrightarrow>
   EditMBP env s a edit string = Inl NullPointerDereference"
  by (simp add: EditMBP_def)

lemma EditMBP_rejected:
  "MemChecks_GetMemCheck a (memchecks s) = Some old \<Longrightarrow> toUInt16 env str = None \<Longrightarrow>
   edit = ADDRESS_COLUMN \<or> edit = END_ADDRESS_COLUMN \<Longrightarrow>
   EditMBP env s a edit (Some str) = Inr s"
  by (auto simp add: EditMBP_def)

lemma EditMBP_done:
  assumes "MemChecks_GetMemCheck a (memchecks s) = Some old"
    and "(if (edit = ADDRESS_COLUMN \<or> edit = END_ADDRESS_COLUMN) \<and> string \<noteq> None
          then (case toUInt16 env (the string) of
                  None \<Rightarrow> None
                | Some new_address \<Rightarrow>
                    if edit = ADDRESS_COLUMN then Some (new_address, end_address old, True)
                    else Some (start_address old, new_address, False))
          else Some (start_address old, end_address old, False)) = Some (b, e, changed)"
  shows "\<exists>mbp. start_address mbp = b \<and> end_address mbp = e \<and> is_ranged mbp = (b \<noteq> e)
      \<and> EditMBP env s a edit string =
          Inr (Update (emit BreakpointsChanged
            (s\<lparr>memchecks :=
                 (if changed then MemChecks_Remove a (MemChecks_Add mbp (memchecks s))
                  else MemChecks_Add mbp (memchecks s))\<rparr>)))"
proof -
  let ?m0 = "(new_TMemCheck env)\<lparr>
      TMemCheck.is_enabled :=
        (if edit = ENABLED_COLUMN then \<not> TMemCheck.is_enabled old else TMemCheck.is_enabled old),
      TMemCheck.log_on_hit :=
        (if edit = LOG_COLUMN then \<not> TMemCheck.log_on_hit old else TMemCheck.log_on_hit old),
      TMemCheck.break_on_hit :=
        (if edit = BREAK_COLUMN then \<not> TMemCheck.break_on_hit old else TMemCheck.break_on_hit old),
      is_break_on_read :=
        (if edit = READ_COLUMN then \<not> is_break_on_read old else is_break_on_read old),
      is_break_on_write :=
        (if edit = WRITE_COLUMN then \<not> is_break_on_write old else is_break_on_write old),
      start_address := b, end_address := e, is_ranged := (b \<noteq> e)\<rparr>"
  let ?m = "if edit = CONDITION_COLUMN \<and> string \<noteq> None
      then ?m0\<lparr>TMemCheck.condition := TryParse env (the string)\<rparr>
      else if TMemCheck.condition old \<noteq> None \<and> edit \<noteq> CONDITION_COLUMN
      then ?m0\<lparr>TMemCheck.condition := TryParse env (GetText env (the (TMemCheck.condition old)))\<rparr>
      else ?m0"
  have run: "EditMBP env s a edit string =
      Inr (Update (emit BreakpointsChanged
        (s\<lparr>memchecks :=
             (if changed then MemChecks_Remove a (MemChecks_Add ?m (memchecks s))
              else MemChecks_Add ?m (memchecks s))\<rparr>)))"
    unfolding EditMBP_def assms(1) option.case Let_def assms(2) prod.case by auto
  have "start_address ?m = b" "end_address ?m = e" "is_ranged ?m = (b \<noteq> e)"
    by simp_all
  then show ?thesis using run by blast
qed

section \<open>Evaluating the example\<close>

lemma example_parses:
  "toUInt16 example_env ''80004000'' = Some 0x80004000"
  "toUInt16 example_env ''80003100'' = Some 0x80003100"
  "toUInt16 example_env ''8000zz00'' = None"
  by (simp_all add: example_env_def hex_toUInt_def hex_digit_def)

lemma example_entries:
  "BreakPoints_GetBreakpoint 0x80003000 (breakpoints example_widget) = Some example_bp"
  "BreakPoints_GetBreakpoint 0x80003abc (breakpoints example_widget) = Some example_temp_bp"
  "BreakPoints_GetBreakpoint 0x80003100 (breakpoints example_widget) = None"
  "MemChecks_GetMemCheck 0x80004000 (memchecks example_widget) = Some example_mbp"
  "MemChecks_GetMemCheck 0x80003000 (memchecks example_widget) = None"
  by (simp_all add: example_widget_def example_bp_def example_temp_bp_def example_mbp_def
      BreakPoints_GetBreakpoint_def MemChecks_GetMemCheck_def)

section \<open>Address text that is not hexadecimal\<close>

text \<open>
  Claim C1, as the code has it. When the text entered for the address of an existing
  breakpoint (\<^verbatim>\<open>EditBreakpoint\<close> with \<^verbatim>\<open>ADDRESS_COLUMN\<close>) or for the start or end address
  of an existing memory check (\<^verbatim>\<open>EditMBP\<close> with \<^verbatim>\<open>ADDRESS_COLUMN\<close> or
  \<^verbatim>\<open>END_ADDRESS_COLUMN\<close>) is not a hexadecimal number, the call returns normally and the
  whole state of the widget is as before: both stores, the table, the signals emitted
  and the per-game file. So the edit is rejected without a crash and the stores are
  unchanged, but silently: nothing is shown.
\<close>

theorem invalid_address_text_rejected_silently:
  assumes "toUInt16 env str = None"
  shows "(BreakPoints_GetBreakpoint a (breakpoints s) \<noteq> None \<longrightarrow>
            EditBreakpoint env s a ADDRESS_COLUMN (Some str) = Inr s) \<and>
         (MemChecks_GetMemCheck a' (memchecks s) \<noteq> None \<longrightarrow>
            EditMBP env s a' ADDRESS_COLUMN (Some str) = Inr s \<and>
            EditMBP env s a' END_ADDRESS_COLUMN (Some str) = Inr s) \<and>
         \<not> shown s (Inr s)"
proof (intro conjI impI)
  assume "BreakPoints_GetBreakpoint a (breakpoints s) \<noteq> None"
  then obtain old where "BreakPoints_GetBreakpoint a (breakpoints s) = Some old" by blast
  then show "EditBreakpoint env s a ADDRESS_COLUMN (Some str) = Inr s"
    using assms by (rule EditBreakpoint_rejected)
next
  assume "MemChecks_GetMemCheck a' (memchecks s) \<noteq> None"
  then obtain old where old: "MemChecks_GetMemCheck a' (memchecks s) = Some old" by blast
  show "EditMBP env s a' ADDRESS_COLUMN (Some str) = Inr s"
    using old assms by (rule EditMBP_rejected) simp
next
  assume "MemChecks_GetMemCheck a' (memchecks s) \<noteq> None"
  then obtain old where old: "MemChecks_GetMemCheck a' (memchecks s) = Some old" by blast
  show "EditMBP env s a' END_ADDRESS_COLUMN (Some str) = Inr s"
    using old assms by (rule EditMBP_rejected) simp
next
  show "\<not> shown s (Inr s)" by (simp add: shown_def)
qed

text \<open>
  The statement above at the example: the text \<open>8000zz00\<close> for the breakpoint at 80003000
  and for the memory check at 80004000.
\<close>

theorem invalid_address_text_rejected_silently_witness:
  "toUInt16 example_env ''8000zz00'' = None \<and>
   BreakPoints_GetBreakpoint 0x80003000 (breakpoints example_widget) \<noteq> None \<and>
   MemChecks_GetMemCheck 0x80004000 (memchecks example_widget) \<noteq> None \<and>
   EditBreakpoint example_env example_widget 0x80003000 ADDRESS_COLUMN (Some ''8000zz00'')
     = Inr example_widget \<and>
   EditMBP example_env example_widget 0x80004000 ADDRESS_COLUMN (Some ''8000zz00'')
     = Inr example_widget \<and>
   EditMBP example_env example_widget 0x80004000 END_ADDRESS_COLUMN (Some ''8000zz00'')
     = Inr example_widget"
  using invalid_address_text_rejected_silently
    [OF example_parses(3), of "0x80003000" example_widget "0x80004000"]
  by (simp add: example_parses example_entries)

text \<open>
  Claim C1 as stated asks for more: that a validation failure is brought before the
  user. At the example no signal is emitted and the table is not redrawn by any of the
  three rejected edits, so nothing is brought before anyone.
\<close>

theorem invalid_address_text_not_surfaced:
  "\<not> shown example_widget
       (EditBreakpoint example_env example_widget 0x80003000 ADDRESS_COLUMN (Some ''8000zz00'')) \<and>
   \<not> shown example_widget
       (EditMBP example_env example_widget 0x80004000 ADDRESS_COLUMN (Some ''8000zz00'')) \<and>
   \<not> shown example_widget
       (EditMBP example_env example_widget 0x80004000 END_ADDRESS_COLUMN (Some ''8000zz00''))"
  by (simp add: EditBreakpoint_rejected [OF example_entries(1) example_parses(3)]
      EditMBP_rejected [OF example_entries(4) example_parses(3)] shown_def)

section \<open>Editing an entry that is not in the store\<close>

text \<open>
  Claim C9. \<^verbatim>\<open>EditBreakpoint\<close> and \<^verbatim>\<open>EditMBP\<close> dereference the pointer they get from
  \<^verbatim>\<open>GetBreakpoint\<close> and \<^verbatim>\<open>GetMemCheck\<close> unconditionally: the call ends in the dereference of
  a null pointer exactly when the store has no entry at the address given, whatever
  the column and the text. With an entry there that branch is never taken; without
  one the call is not the no-op that returns the state as it was.
\<close>

theorem edit_dereferences_missing_entry:
  "((EditBreakpoint env s a edit string = Inl NullPointerDereference)
      = (BreakPoints_GetBreakpoint a (breakpoints s) = None)) \<and>
   ((EditMBP env s a edit string = Inl NullPointerDereference)
      = (MemChecks_GetMemCheck a (memchecks s) = None)) \<and>
   (BreakPoints_GetBreakpoint a (breakpoints s) = None \<longrightarrow> EditBreakpoint env s a edit string \<noteq> Inr s) \<and>
   (MemChecks_GetMemCheck a (memchecks s) = None \<longrightarrow> EditMBP env s a edit string \<noteq> Inr s)"
proof -
  have bp: "EditBreakpoint env s a edit string \<noteq> Inl NullPointerDereference"
    if "BreakPoints_GetBreakpoint a (breakpoints s) = Some old" for old
  proof (cases "if edit = ADDRESS_COLUMN \<and> string \<noteq> None then toUInt16 env (the string) else Some a")
    case None
    then show ?thesis using that by (simp add: EditBreakpoint_def)
  next
    case (Some b)
    from EditBreakpoint_done [OF that Some] show ?thesis by auto
  qed
  have mbp: "EditMBP env s a edit string \<noteq> Inl NullPointerDereference"
    if "MemChecks_GetMemCheck a (memchecks s) = Some old" for old
  proof (cases "if (edit = ADDRESS_COLUMN \<or> edit = END_ADDRESS_COLUMN) \<and> string \<noteq> None
          then (case toUInt16 env (the string) of
                  None \<Rightarrow> None
                | Some new_address \<Rightarrow>
                    if edit = ADDRESS_COLUMN then Some (new_address, end_address old, True)
                    else Some (start_address old, new_address, False))
          else Some (start_address old, end_address old, False)")
    case None
    then show ?thesis unfolding EditMBP_def that option.case Let_def by simp
  next
    case (Some t)
    obtain b e changed where "t = (b, e, changed)" by (cases t)
    with EditMBP_done [OF that] Some show ?thesis by fastforce
  qed
  have "(EditBreakpoint env s a edit string = Inl NullPointerDereference)
      = (BreakPoints_GetBreakpoint a (breakpoints s) = None)"
    using bp by (cases "BreakPoints_GetBreakpoint a (breakpoints s)") (simp_all add: EditBreakpoint_missing)
  moreover have "(EditMBP env s a edit string = Inl NullPointerDereference)
      = (MemChecks_GetMemCheck a (memchecks s) = None)"
    using mbp by (cases "MemChecks_GetMemCheck a (memchecks s)") (simp_all add: EditMBP_missing)
  ultimately show ?thesis by (simp add: EditBreakpoint_missing EditMBP_missing)
qed

text \<open>
  The statement above at the example: there is no breakpoint at 80003100 and no memory
  check at 80003000, and there are entries at 80003000 and at 80004000.
\<close>

theorem edit_dereferences_missing_entry_witness:
  "EditBreakpoint example_env example_widget 0x80003100 LOG_COLUMN None = Inl NullPointerDereference \<and>
   EditMBP example_env example_widget 0x80003000 LOG_COLUMN None = Inl NullPointerDereference \<and>
   EditBreakpoint example_env example_widget 0x80003000 LOG_COLUMN None \<noteq> Inl NullPointerDereference \<and>
   EditMBP example_env example_widget 0x80004000 LOG_COLUMN None \<noteq> Inl NullPointerDereference"
  using edit_dereferences_missing_entry [of example_env example_widget "0x80003100" LOG_COLUMN None]
    edit_dereferences_missing_entry [of example_env example_widget "0x80003000" LOG_COLUMN None]
    edit_dereferences_missing_entry [of example_env example_widget "0x80004000" LOG_COLUMN None]
  by (simp add: example_entries)

section \<open>Re-entering the start address of a memory check\<close>

text \<open>
  Claim C10. When the start address of an existing memory check is edited
  (\<^verbatim>\<open>ADDRESS_COLUMN\<close>) with a text that parses to the very address it has, the memory check
  is gone afterwards. The edited entry \<open>mbp\<close> is added first, which overwrites the old
  entry where it stands (the store is as long as before and holds \<open>mbp\<close> at the
  address); then, \<^verbatim>\<open>address_changed\<close> being set, the entry at that same address is
  removed, which is \<open>mbp\<close> itself. The change is announced.
\<close>

theorem EditMBP_same_start_address_removes_watch:
  assumes "MemChecks_GetMemCheck a (memchecks s) = Some old"
    and "toUInt16 env str = Some a"
  shows "\<exists>mbp s'. EditMBP env s a ADDRESS_COLUMN (Some str) = Inr s' \<and>
           start_address mbp = a \<and>
           MemChecks_GetMemCheck a (MemChecks_Add mbp (memchecks s)) = Some mbp \<and>
           length (MemChecks_Add mbp (memchecks s)) = length (memchecks s) \<and>
           memchecks s' = MemChecks_Remove a (MemChecks_Add mbp (memchecks s)) \<and>
           MemChecks_GetMemCheck a (memchecks s') = None \<and>
           emitted s' = emitted s @ [BreakpointsChanged]"
proof -
  have "(if (ADDRESS_COLUMN = ADDRESS_COLUMN \<or> ADDRESS_COLUMN = END_ADDRESS_COLUMN) \<and> Some str \<noteq> None
          then (case toUInt16 env (the (Some str)) of
                  None \<Rightarrow> None
                | Some new_address \<Rightarrow>
                    if ADDRESS_COLUMN = ADDRESS_COLUMN then Some (new_address, end_address old, True)
                    else Some (start_address old, new_address, False))
          else Some (start_address old, end_address old, False)) = Some (a, end_address old, True)"
    using assms(2) by simp
  from EditMBP_done [OF assms(1) this]
  obtain mbp where mbp: "start_address mbp = a"
    and run: "EditMBP env s a ADDRESS_COLUMN (Some str) =
        Inr (Update (emit BreakpointsChanged
          (s\<lparr>memchecks := MemChecks_Remove a (MemChecks_Add mbp (memchecks s))\<rparr>)))"
    by auto
  have "a \<in> start_address ` set (memchecks s)"
    using GetMemCheck_start [OF assms(1)] by force
  then have "length (MemChecks_Add mbp (memchecks s)) = length (memchecks s)"
    by (simp add: length_MemChecks_Add mbp)
  moreover have "MemChecks_GetMemCheck a (MemChecks_Add mbp (memchecks s)) = Some mbp"
    using GetMemCheck_Add_same [of mbp "memchecks s"] by (simp add: mbp)
  ultimately show ?thesis
    using mbp run by (auto simp: GetMemCheck_Remove)
qed

text \<open>
  The statement above at the example: the memory check at 80004000, edited with the text
  \<open>80004000\<close>.
\<close>

theorem EditMBP_same_start_address_removes_watch_witness:
  "MemChecks_GetMemCheck 0x80004000 (memchecks example_widget) = Some example_mbp \<and>
   toUInt16 example_env ''80004000'' = Some 0x80004000 \<and>
   (\<exists>s'. EditMBP example_env example_widget 0x80004000 ADDRESS_COLUMN (Some ''80004000'') = Inr s' \<and>
         MemChecks_GetMemCheck 0x80004000 (memchecks s') = None)"
  using EditMBP_same_start_address_removes_watch [OF example_entries(4) example_parses(1)]
  by (auto simp: example_entries example_parses)

section \<open>Adding a breakpoint replaces by address\<close>








section \<open>Every mutation is announced\<close>

lemma EditBreakpoint_notifies:
  assumes "EditBreakpoint env s a edit string = Inr s'"
  shows "s' = s \<or> emitted s' = emitted s @ [BreakpointsChanged]"
proof (cases "BreakPoints_GetBreakpoint a (breakpoints s)")
  case None
  then show ?thesis using assms by (simp add: EditBreakpoint_missing)
next
  case (Some old)
  show ?thesis
  proof (cases "if edit = ADDRESS_COLUMN \<and> string \<noteq> None then toUInt16 env (the string) else Some a")
    case None
    then have "EditBreakpoint env s a edit string = Inr s"
      using Some by (simp add: EditBreakpoint_def)
    then show ?thesis using assms by simp
  next
    case (Some b)
    from EditBreakpoint_done [OF \<open>BreakPoints_GetBreakpoint a (breakpoints s) = Some old\<close> Some] assms
    show ?thesis by auto
  qed
qed

lemma EditMBP_notifies:
  assumes "EditMBP env s a edit string = Inr s'"
  shows "s' = s \<or> emitted s' = emitted s @ [BreakpointsChanged]"
proof (cases "MemChecks_GetMemCheck a (memchecks s)")
  case None
  then show ?thesis using assms by (simp add: EditMBP_missing)
next
  case (Some old)
  show ?thesis
  proof (cases "if (edit = ADDRESS_COLUMN \<or> edit = END_ADDRESS_COLUMN) \<and> string \<noteq> None
          then (case toUInt16 env (the string) of
                  None \<Rightarrow> None
                | Some new_address \<Rightarrow>
                    if edit = ADDRESS_COLUMN then Some (new_address, end_address old, True)
                    else Some (start_address old, new_address, False))
          else Some (start_address old, end_address old, False)")
    case None
    then have "EditMBP env s a edit string = Inr s"
      unfolding EditMBP_def Some option.case Let_def by simp
    then show ?thesis using assms by simp
  next
    case (Some t)
    obtain b e changed where "t = (b, e, changed)" by (cases t)
    with EditMBP_done [OF \<open>MemChecks_GetMemCheck a (memchecks s) = Some old\<close>] Some assms
    show ?thesis by fastforce
  qed
qed

lemma OnClicked_notifies:
  assumes "OnClicked env s item = Inr s'"
  shows "s' = s \<or> emitted s' = emitted s @ [BreakpointsChanged]"
proof (cases item)
  case None
  then show ?thesis using assms by (simp add: OnClicked_def)
next
  case (Some rc)
  obtain row column where rc: "rc = (row, column)" by (cases rc)
  show ?thesis
  proof (cases "column = ADDRESS_COLUMN \<or> column = END_ADDRESS_COLUMN")
    case True
    then show ?thesis using assms Some rc by (auto simp: OnClicked_def)
  next
    case False
    show ?thesis
    proof (cases "table_item (m_table s) row")
      case None
      then show ?thesis using assms Some rc False by (simp add: OnClicked_def)
    next
      case (Some am)
      obtain a is_memcheck where am: "am = (a, is_memcheck)" by (cases am)
      show ?thesis
      proof (cases "column = ENABLED_COLUMN")
        case True
        then show ?thesis
          using assms \<open>item = Some rc\<close> rc Some am by (auto simp: OnClicked_def Let_def)
      next
        case not_enabled: False
        show ?thesis
        proof (cases is_memcheck)
          case True
          then have "EditMBP env s a column None = Inr s'"
            using assms \<open>item = Some rc\<close> rc Some am False not_enabled by (simp add: OnClicked_def)
          then show ?thesis by (rule EditMBP_notifies)
        next
          case False
          then have "EditBreakpoint env s a column None = Inr s'"
            using assms \<open>item = Some rc\<close> rc Some am
              \<open>\<not> (column = ADDRESS_COLUMN \<or> column = END_ADDRESS_COLUMN)\<close> not_enabled
            by (simp add: OnClicked_def)
          then show ?thesis by (rule EditBreakpoint_notifies)
        qed
      qed
    qed
  qed
qed

lemma OnContextMenu_notifies:
  "breakpoints (OnContextMenu s row chosen) = breakpoints s \<and>
   memchecks (OnContextMenu s row chosen) = memchecks s
   \<or> emitted (OnContextMenu s row chosen) = emitted s @ [BreakpointsChanged]"
  by (auto simp: OnContextMenu_def split: option.splits menu_action.splits)

lemma OnLoad_notifies:
  "OnLoad env s = s \<or> emitted (OnLoad env s) = emitted s @ [BreakpointsChanged]"
  by (auto simp: OnLoad_def Let_def split: option.splits)

lemma OnSave_stores:
  "breakpoints (OnSave env s) = breakpoints s" "memchecks (OnSave env s) = memchecks s"
  "emitted (OnSave env s) = emitted s" "m_table (OnSave env s) = m_table s"
  by (simp_all add: OnSave_def Let_def)

lemma adders_notify:
  "emitted (OnClear s) = emitted s @ [BreakpointsChanged]"
  "emitted (AddBP_fields env s addr temp brk lg cond) = emitted s @ [BreakpointsChanged]"
  "emitted (AddBP env s addr) = emitted s @ [BreakpointsChanged]"
  "emitted (AddAddressMBP env s addr r w lg brk cond) = emitted s @ [BreakpointsChanged]"
  "emitted (AddRangedMBP env s from to r w lg brk cond) = emitted s @ [BreakpointsChanged]"
  by (simp_all add: OnClear_def AddBP_fields_def AddBP_def AddAddressMBP_def AddRangedMBP_def Let_def)

lemma call_notifies:
  assumes "call env s c = Inr s'"
    and "breakpoints s' \<noteq> breakpoints s \<or> memchecks s' \<noteq> memchecks s"
  shows "emitted s' = emitted s @ [BreakpointsChanged]"
proof (cases c)
  case (Call_OnClicked item)
  then show ?thesis using assms OnClicked_notifies [of env s item s'] by auto
next
  case Call_OnClear
  then show ?thesis using assms by (auto simp: adders_notify)
next
  case Call_OnLoad
  then show ?thesis using assms OnLoad_notifies [of env s] by auto
next
  case Call_OnSave
  then show ?thesis using assms by (auto simp: OnSave_stores)
next
  case (Call_OnContextMenu row chosen)
  then show ?thesis using assms OnContextMenu_notifies [of s row chosen] by auto
next
  case (Call_AddBP addr)
  then show ?thesis using assms by (auto simp: adders_notify)
next
  case (Call_AddBP_fields addr temp brk lg cond)
  then show ?thesis using assms by (auto simp: adders_notify)
next
  case (Call_AddAddressMBP addr r w lg brk cond)
  then show ?thesis using assms by (auto simp: adders_notify)
next
  case (Call_AddRangedMBP start end' r w lg brk cond)
  then show ?thesis using assms by (auto simp: adders_notify)
next
  case (Call_EditBreakpoint a edit string)
  then show ?thesis using assms EditBreakpoint_notifies [of env s a edit string s'] by auto
next
  case (Call_EditMBP a edit string)
  then show ?thesis using assms EditMBP_notifies [of env s a edit string s'] by auto
qed

lemma OnClicked_toggle_notifies:
  assumes "table_item (m_table s) row \<noteq> None"
  shows "\<exists>s'. OnClicked env s (Some (row, ENABLED_COLUMN)) = Inr s' \<and>
           emitted s' = emitted s @ [BreakpointsChanged]"
proof -
  from assms obtain a is_memcheck where "table_item (m_table s) row = Some (a, is_memcheck)"
    by (cases "table_item (m_table s) row") auto
  then show ?thesis by (cases is_memcheck) (simp_all add: OnClicked_def Let_def)
qed

lemma OnLoad_with_file_notifies:
  "game_ini s \<noteq> None \<Longrightarrow> emitted (OnLoad env s) = emitted s @ [BreakpointsChanged]"
  by (auto simp: OnLoad_def Let_def split: option.splits)

lemma Delete_notifies:
  assumes "table_item (m_table s) row = Some (a, is_memcheck)"
    and "if is_memcheck then MemChecks_GetMemCheck a (memchecks s) \<noteq> None
         else BreakPoints_GetBreakpoint a (breakpoints s) \<noteq> None"
  shows "emitted (OnContextMenu s row (Some Delete)) = emitted s @ [BreakpointsChanged]"
  using assms
  by (cases is_memcheck)
     (auto simp: OnContextMenu_def MemChecks_GetMemCheck_def BreakPoints_GetBreakpoint_def)

lemma EditBreakpoint_done_notifies:
  assumes "BreakPoints_GetBreakpoint a (breakpoints s) \<noteq> None"
    and "(if edit = ADDRESS_COLUMN \<and> string \<noteq> None then toUInt16 env (the string) else Some a) \<noteq> None"
  shows "\<exists>s'. EditBreakpoint env s a edit string = Inr s' \<and>
           emitted s' = emitted s @ [BreakpointsChanged]"
proof -
  from assms obtain old b where "BreakPoints_GetBreakpoint a (breakpoints s) = Some old"
    and "(if edit = ADDRESS_COLUMN \<and> string \<noteq> None then toUInt16 env (the string) else Some a) = Some b"
    by blast
  from EditBreakpoint_done [OF this] show ?thesis by auto
qed

lemma EditMBP_done_notifies:
  assumes "MemChecks_GetMemCheck a (memchecks s) \<noteq> None"
    and "\<not> ((edit = ADDRESS_COLUMN \<or> edit = END_ADDRESS_COLUMN) \<and> string \<noteq> None \<and>
            toUInt16 env (the string) = None)"
  shows "\<exists>s'. EditMBP env s a edit string = Inr s' \<and>
           emitted s' = emitted s @ [BreakpointsChanged]"
proof -
  from assms(1) obtain old where old: "MemChecks_GetMemCheck a (memchecks s) = Some old"
    by blast
  let ?t = "if (edit = ADDRESS_COLUMN \<or> edit = END_ADDRESS_COLUMN) \<and> string \<noteq> None
          then (case toUInt16 env (the string) of
                  None \<Rightarrow> None
                | Some new_address \<Rightarrow>
                    if edit = ADDRESS_COLUMN then Some (new_address, end_address old, True)
                    else Some (start_address old, new_address, False))
          else Some (start_address old, end_address old, False)"
  have "?t \<noteq> None" using assms(2) by (auto split: option.splits)
  then obtain b e changed where "?t = Some (b, e, changed)"
    by (cases ?t) auto
  from EditMBP_done [OF old this] show ?thesis by auto
qed

text \<open>
  Claim C5. Whatever call is made on the widget (a click, Clear, Load, Save, the
  context menu's actions, \<^verbatim>\<open>AddBP\<close>, \<^verbatim>\<open>AddAddressMBP\<close>, \<^verbatim>\<open>AddRangedMBP\<close>,
  \<^verbatim>\<open>EditBreakpoint\<close>, \<^verbatim>\<open>EditMBP\<close>): if it returns and has changed the breakpoint store or
  the memory check store, then it has emitted \<^verbatim>\<open>BreakpointsChanged\<close>, once, before
  returning; no store is changed through the widget without the signal. And each of
  the operations that write to a store does emit it whenever it gets to the write: a
  click in the first column of a row of the table, \<^verbatim>\<open>OnClear\<close>, \<^verbatim>\<open>OnLoad\<close> with a file, the
  menu's Delete on a row whose entry exists, the adding functions, and the two edit
  functions on an existing entry with a text that is not rejected.
\<close>

theorem store_mutation_emits_BreakpointsChanged:
  "(call env s c = Inr s' \<and> (breakpoints s' \<noteq> breakpoints s \<or> memchecks s' \<noteq> memchecks s)
      \<longrightarrow> emitted s' = emitted s @ [BreakpointsChanged]) \<and>
   (table_item (m_table s) row \<noteq> None \<longrightarrow>
      (\<exists>t. OnClicked env s (Some (row, ENABLED_COLUMN)) = Inr t \<and>
           emitted t = emitted s @ [BreakpointsChanged])) \<and>
   emitted (OnClear s) = emitted s @ [BreakpointsChanged] \<and>
   (game_ini s \<noteq> None \<longrightarrow> emitted (OnLoad env s) = emitted s @ [BreakpointsChanged]) \<and>
   (table_item (m_table s) row = Some (a, is_memcheck) \<and>
    (if is_memcheck then MemChecks_GetMemCheck a (memchecks s) \<noteq> None
     else BreakPoints_GetBreakpoint a (breakpoints s) \<noteq> None) \<longrightarrow>
      emitted (OnContextMenu s row (Some Delete)) = emitted s @ [BreakpointsChanged]) \<and>
   emitted (AddBP env s addr) = emitted s @ [BreakpointsChanged] \<and>
   emitted (AddBP_fields env s addr temp brk lg cond) = emitted s @ [BreakpointsChanged] \<and>
   emitted (AddAddressMBP env s addr r w lg brk cond) = emitted s @ [BreakpointsChanged] \<and>
   emitted (AddRangedMBP env s addr to r w lg brk cond) = emitted s @ [BreakpointsChanged] \<and>
   (BreakPoints_GetBreakpoint a (breakpoints s) \<noteq> None \<and>
    (if edit = ADDRESS_COLUMN \<and> string \<noteq> None then toUInt16 env (the string) else Some a) \<noteq> None
      \<longrightarrow> (\<exists>t. EditBreakpoint env s a edit string = Inr t \<and>
                emitted t = emitted s @ [BreakpointsChanged])) \<and>
   (MemChecks_GetMemCheck a (memchecks s) \<noteq> None \<and>
    \<not> ((edit = ADDRESS_COLUMN \<or> edit = END_ADDRESS_COLUMN) \<and> string \<noteq> None \<and>
         toUInt16 env (the string) = None)
      \<longrightarrow> (\<exists>t. EditMBP env s a edit string = Inr t \<and>
                emitted t = emitted s @ [BreakpointsChanged]))"
proof (intro conjI impI)
  show "emitted s' = emitted s @ [BreakpointsChanged]"
    if "call env s c = Inr s' \<and> (breakpoints s' \<noteq> breakpoints s \<or> memchecks s' \<noteq> memchecks s)"
    using that call_notifies [of env s c s'] by blast
  show "\<exists>t. OnClicked env s (Some (row, ENABLED_COLUMN)) = Inr t \<and>
           emitted t = emitted s @ [BreakpointsChanged]"
    if "table_item (m_table s) row \<noteq> None"
    using that by (rule OnClicked_toggle_notifies)
  show "emitted (OnLoad env s) = emitted s @ [BreakpointsChanged]" if "game_ini s \<noteq> None"
    using that by (rule OnLoad_with_file_notifies)
  show "emitted (OnContextMenu s row (Some Delete)) = emitted s @ [BreakpointsChanged]"
    if "table_item (m_table s) row = Some (a, is_memcheck) \<and>
        (if is_memcheck then MemChecks_GetMemCheck a (memchecks s) \<noteq> None
         else BreakPoints_GetBreakpoint a (breakpoints s) \<noteq> None)"
    using that Delete_notifies [of s row a is_memcheck] by blast
  show "\<exists>t. EditBreakpoint env s a edit string = Inr t \<and>
           emitted t = emitted s @ [BreakpointsChanged]"
    if "BreakPoints_GetBreakpoint a (breakpoints s) \<noteq> None \<and>
        (if edit = ADDRESS_COLUMN \<and> string \<noteq> None then toUInt16 env (the string) else Some a) \<noteq> None"
    using that EditBreakpoint_done_notifies [of a s edit string env] by blast
  show "\<exists>t. EditMBP env s a edit string = Inr t \<and>
           emitted t = emitted s @ [BreakpointsChanged]"
    if "MemChecks_GetMemCheck a (memchecks s) \<noteq> None \<and>
        \<not> ((edit = ADDRESS_COLUMN \<or> edit = END_ADDRESS_COLUMN) \<and> string \<noteq> None \<and>
             toUInt16 env (the string) = None)"
    using that EditMBP_done_notifies [of a s edit string env] by blast
qed (simp_all add: adders_notify)

lemma example_toggle:
  "call example_env example_widget (Call_OnClicked (Some (1, ENABLED_COLUMN))) =
     Inr (example_widget\<lparr>
       breakpoints := [example_bp, example_temp_bp\<lparr>TBreakPoint.is_enabled := False\<rparr>],
       emitted := [BreakpointsChanged]\<rparr>)"
  by (simp add: OnClicked_def table_item_def example_widget_def Update_def emit_def
      BreakPoints_ToggleBreakPoint_def example_bp_def example_temp_bp_def example_mbp_def)

text \<open>
  The statement above at the example: a click in the first column of the second row
  disables the breakpoint at 80003abc and emits the signal, and so does an edit of the
  log flag of the breakpoint at 80003000.
\<close>

theorem store_mutation_emits_BreakpointsChanged_witness:
  "call example_env example_widget (Call_OnClicked (Some (1, ENABLED_COLUMN))) =
     Inr (example_widget\<lparr>
       breakpoints := [example_bp, example_temp_bp\<lparr>TBreakPoint.is_enabled := False\<rparr>],
       emitted := [BreakpointsChanged]\<rparr>) \<and>
   breakpoints (example_widget\<lparr>
       breakpoints := [example_bp, example_temp_bp\<lparr>TBreakPoint.is_enabled := False\<rparr>],
       emitted := [BreakpointsChanged]\<rparr>) \<noteq> breakpoints example_widget \<and>
   emitted (example_widget\<lparr>
       breakpoints := [example_bp, example_temp_bp\<lparr>TBreakPoint.is_enabled := False\<rparr>],
       emitted := [BreakpointsChanged]\<rparr>) = emitted example_widget @ [BreakpointsChanged] \<and>
   BreakPoints_GetBreakpoint 0x80003000 (breakpoints example_widget) \<noteq> None \<and>
   (\<exists>t. EditBreakpoint example_env example_widget 0x80003000 LOG_COLUMN None = Inr t \<and>
        emitted t = emitted example_widget @ [BreakpointsChanged])"
proof -
  let ?s' = "example_widget\<lparr>
       breakpoints := [example_bp, example_temp_bp\<lparr>TBreakPoint.is_enabled := False\<rparr>],
       emitted := [BreakpointsChanged]\<rparr>"
  have changed: "breakpoints ?s' \<noteq> breakpoints example_widget"
    by (simp add: example_widget_def example_temp_bp_def)
  have there: "BreakPoints_GetBreakpoint 0x80003000 (breakpoints example_widget) \<noteq> None"
    by (simp add: example_entries)
  have nothing_yet: "emitted example_widget = []"
    by (simp add: example_widget_def)
  note store_mutation_emits_BreakpointsChanged
    [where env = example_env and s = example_widget
       and c = "Call_OnClicked (Some (1, ENABLED_COLUMN))" and s' = ?s'
       and a = "0x80003000" and edit = LOG_COLUMN and string = None]
  with example_toggle changed there nothing_yet show ?thesis by simp
qed

section \<open>Loading without a file or a section\<close>

text \<open>
  Claim C6. \<^verbatim>\<open>OnLoad\<close> always returns. Without a per-game file it leaves the widget as it
  is. With a file, the breakpoint store is cleared and filled from the lines of the
  section \<open>BreakPoints\<close> if the file has that section and is left as it is if not, and
  likewise the memory check store and the section \<open>MemoryBreakPoints\<close>.
\<close>

theorem OnLoad_missing_file_or_section:
  "call env s Call_OnLoad = Inr (OnLoad env s) \<and>
   (game_ini s = None \<longrightarrow> OnLoad env s = s) \<and>
   (\<forall>ini. game_ini s = Some ini \<longrightarrow>
      breakpoints (OnLoad env s) =
        (case ini ''BreakPoints'' of
           None \<Rightarrow> breakpoints s
         | Some new_bps \<Rightarrow> bp_AddFromStrings env new_bps []) \<and>
      memchecks (OnLoad env s) =
        (case ini ''MemoryBreakPoints'' of
           None \<Rightarrow> memchecks s
         | Some new_mcs \<Rightarrow> mc_AddFromStrings env new_mcs []) \<and>
      game_ini (OnLoad env s) = game_ini s)"
proof (intro conjI allI impI)
  show "call env s Call_OnLoad = Inr (OnLoad env s)" by simp
  show "OnLoad env s = s" if "game_ini s = None"
    using that by (simp add: OnLoad_def)
next
  fix ini
  assume present: "game_ini s = Some ini"
  show "breakpoints (OnLoad env s) =
      (case ini ''BreakPoints'' of
         None \<Rightarrow> breakpoints s
       | Some new_bps \<Rightarrow> bp_AddFromStrings env new_bps [])"
    using present
    by (cases "ini ''BreakPoints''"; cases "ini ''MemoryBreakPoints''")
       (simp_all add: OnLoad_def Let_def BreakPoints_Clear_def)
  show "memchecks (OnLoad env s) =
      (case ini ''MemoryBreakPoints'' of
         None \<Rightarrow> memchecks s
       | Some new_mcs \<Rightarrow> mc_AddFromStrings env new_mcs [])"
    using present
    by (cases "ini ''BreakPoints''"; cases "ini ''MemoryBreakPoints''")
       (simp_all add: OnLoad_def Let_def MemChecks_Clear_def)
  show "game_ini (OnLoad env s) = game_ini s"
    using present
    by (cases "ini ''BreakPoints''"; cases "ini ''MemoryBreakPoints''")
       (simp_all add: OnLoad_def Let_def)
qed

lemma example_hex_strings:
  "hex_string 8 0x80003000 = ''80003000''"
  "hex_string 8 0x80003abc = ''80003abc''"
  "hex_string 8 0x80004000 = ''80004000''"
  by code_simp+

lemma example_more_parses:
  "hex_toUInt ''80003000'' = Some 0x80003000"
  "hex_toUInt ''80003abc'' = Some 0x80003abc"
  "hex_toUInt ''80004000'' = Some 0x80004000"
  "hex_toUInt ''80003100'' = Some 0x80003100"
  by (simp_all add: hex_toUInt_def hex_digit_def)

text \<open>
  The statement above at the example, without a file and with a file that has the
  section \<open>BreakPoints\<close> only.
\<close>

theorem OnLoad_missing_file_or_section_witness:
  "game_ini example_widget = None \<and>
   OnLoad example_env example_widget = example_widget \<and>
   game_ini example_widget_with_file = Some example_ini \<and>
   example_ini ''MemoryBreakPoints'' = None \<and>
   memchecks (OnLoad example_env example_widget_with_file) = memchecks example_widget_with_file \<and>
   map address (breakpoints (OnLoad example_env example_widget_with_file)) = [0x80003100]"
proof -
  have none: "game_ini example_widget = None"
    by (simp add: example_widget_def)
  have some: "game_ini example_widget_with_file = Some example_ini"
    by (simp add: example_widget_with_file_def)
  have lines: "example_ini ''BreakPoints'' = Some [''80003100'']" "example_ini ''MemoryBreakPoints'' = None"
    by (simp_all add: example_ini_def)
  have loaded: "map address (bp_AddFromStrings example_env [''80003100''] []) = [0x80003100]"
    by (simp add: example_env_def example_more_parses BreakPoints_Add_def)
  from OnLoad_missing_file_or_section [of example_env example_widget] none
  have "OnLoad example_env example_widget = example_widget" by blast
  moreover from OnLoad_missing_file_or_section [of example_env example_widget_with_file] some lines
  have "breakpoints (OnLoad example_env example_widget_with_file) = bp_AddFromStrings example_env [''80003100''] []"
    and "memchecks (OnLoad example_env example_widget_with_file) = memchecks example_widget_with_file"
    by simp_all
  ultimately show ?thesis using none some lines loaded by simp
qed

section \<open>Saving and loading use the same two sections\<close>

text \<open>
  Claim C7. After \<^verbatim>\<open>OnSave\<close> the per-game file exists; its section \<open>BreakPoints\<close> holds the
  lines of the breakpoint store and its section \<open>MemoryBreakPoints\<close> those of the
  memory check store, the other sections are as they were, and the stores are
  untouched. \<^verbatim>\<open>OnLoad\<close> fills the two stores from the sections of these same two names;
  so loading after saving gives the stores read back from the lines written.
\<close>

theorem OnSave_writes_sections_OnLoad_reads_them:
  "(\<exists>ini. game_ini (OnSave env s) = Some ini \<and>
      ini ''BreakPoints'' = Some (bp_GetStrings env (breakpoints s)) \<and>
      ini ''MemoryBreakPoints'' = Some (mc_GetStrings env (memchecks s)) \<and>
      (\<forall>name. name \<noteq> ''BreakPoints'' \<and> name \<noteq> ''MemoryBreakPoints'' \<longrightarrow>
         ini name = (case game_ini s of None \<Rightarrow> None | Some f \<Rightarrow> f name))) \<and>
   breakpoints (OnSave env s) = breakpoints s \<and>
   memchecks (OnSave env s) = memchecks s \<and>
   (\<forall>ini new_bps new_mcs.
      game_ini s = Some ini \<and> ini ''BreakPoints'' = Some new_bps \<and>
      ini ''MemoryBreakPoints'' = Some new_mcs \<longrightarrow>
        breakpoints (OnLoad env s) = bp_AddFromStrings env new_bps [] \<and>
        memchecks (OnLoad env s) = mc_AddFromStrings env new_mcs []) \<and>
   breakpoints (OnLoad env (OnSave env s)) =
     bp_AddFromStrings env (bp_GetStrings env (breakpoints s)) [] \<and>
   memchecks (OnLoad env (OnSave env s)) =
     mc_AddFromStrings env (mc_GetStrings env (memchecks s)) []"
proof -
  let ?old = "case game_ini s of None \<Rightarrow> Map.empty | Some f \<Rightarrow> f"
  let ?ini = "?old(''BreakPoints'' \<mapsto> bp_GetStrings env (breakpoints s),
                   ''MemoryBreakPoints'' \<mapsto> mc_GetStrings env (memchecks s))"
  have saved: "OnSave env s = s\<lparr>game_ini := Some ?ini\<rparr>"
    by (simp add: OnSave_def Let_def)
  have bp: "?ini ''BreakPoints'' = Some (bp_GetStrings env (breakpoints s))"
    and mc: "?ini ''MemoryBreakPoints'' = Some (mc_GetStrings env (memchecks s))"
    by simp_all
  have rest: "?ini name = (case game_ini s of None \<Rightarrow> None | Some f \<Rightarrow> f name)"
    if "name \<noteq> ''BreakPoints'' \<and> name \<noteq> ''MemoryBreakPoints''" for name
    using that by (simp split: option.splits)
  have load: "breakpoints (OnLoad env t) = bp_AddFromStrings env new_bps [] \<and>
        memchecks (OnLoad env t) = mc_AddFromStrings env new_mcs []"
    if "game_ini t = Some ini" "ini ''BreakPoints'' = Some new_bps" "ini ''MemoryBreakPoints'' = Some new_mcs"
    for t :: "'a widget" and ini new_bps new_mcs
    using that by (simp add: OnLoad_def Let_def BreakPoints_Clear_def MemChecks_Clear_def)
  have round: "breakpoints (OnLoad env (OnSave env s)) =
        bp_AddFromStrings env (bp_GetStrings env (breakpoints s)) [] \<and>
      memchecks (OnLoad env (OnSave env s)) =
        mc_AddFromStrings env (mc_GetStrings env (memchecks s)) []"
    using load [of "OnSave env s" ?ini, OF _ bp mc] by (simp add: saved)
  show ?thesis
    using saved bp mc rest load round by (simp add: OnSave_stores)
qed

text \<open>
  The statement above at the example: the two sections written, and the addresses read
  back.
\<close>

theorem OnSave_writes_sections_OnLoad_reads_them_witness:
  "map_option (\<lambda>ini. (ini ''BreakPoints'', ini ''MemoryBreakPoints''))
       (game_ini (OnSave example_env example_widget))
     = Some (Some [''80003000'', ''80003abc''], Some [''80004000'']) \<and>
   map address (breakpoints (OnLoad example_env (OnSave example_env example_widget)))
     = [0x80003000, 0x80003abc] \<and>
   map start_address (memchecks (OnLoad example_env (OnSave example_env example_widget)))
     = [0x80004000]"
proof -
  have bps: "bp_GetStrings example_env (breakpoints example_widget) = [''80003000'', ''80003abc'']"
    by (simp add: example_env_def example_widget_def example_bp_def example_temp_bp_def
        example_hex_strings)
  have mcs: "mc_GetStrings example_env (memchecks example_widget) = [''80004000'']"
    by (simp add: example_env_def example_widget_def example_mbp_def example_hex_strings)
  have bp_back: "map address (bp_AddFromStrings example_env [''80003000'', ''80003abc''] [])
      = [0x80003000, 0x80003abc]"
    by (simp add: example_env_def example_more_parses BreakPoints_Add_def)
  have mc_back: "map start_address (mc_AddFromStrings example_env [''80004000''] []) = [0x80004000]"
    by (simp add: example_env_def example_more_parses)
  from OnSave_writes_sections_OnLoad_reads_them [of example_env example_widget]
  show ?thesis
    by (auto simp: bps mcs bp_back mc_back)
qed

section \<open>Ranged and single-address memory checks\<close>

lemma set_MemChecks_Add: "set (MemChecks_Add mc mcs) \<subseteq> insert mc (set mcs)"
  by (induction mcs) auto

lemma AddAddressMBP_entry:
  "\<exists>m. MemChecks_GetMemCheck addr (memchecks (AddAddressMBP env s addr r w lg brk cond)) = Some m \<and>
      start_address m = addr \<and> end_address m = addr \<and> \<not> is_ranged m \<and> ranged_iff_ends_differ m"
proof -
  let ?check = "(new_TMemCheck env)\<lparr>
      start_address := addr, end_address := addr, is_ranged := False,
      is_break_on_read := r, is_break_on_write := w,
      TMemCheck.log_on_hit := lg, TMemCheck.break_on_hit := brk,
      TMemCheck.condition := (if cond \<noteq> [] then TryParse env cond else None)\<rparr>"
  have "memchecks (AddAddressMBP env s addr r w lg brk cond) = MemChecks_Add ?check (memchecks s)"
    by (simp add: AddAddressMBP_def Let_def)
  moreover have "MemChecks_GetMemCheck addr (MemChecks_Add ?check (memchecks s)) = Some ?check"
    using GetMemCheck_Add_same [of ?check "memchecks s"] by simp
  ultimately show ?thesis by (simp add: ranged_iff_ends_differ_def)
qed

lemma AddAddressMBP_keeps_ranged_invariant:
  assumes "\<forall>m \<in> set (memchecks s). ranged_iff_ends_differ m"
  shows "\<forall>m \<in> set (memchecks (AddAddressMBP env s addr r w lg brk cond)). ranged_iff_ends_differ m"
proof -
  let ?check = "(new_TMemCheck env)\<lparr>
      start_address := addr, end_address := addr, is_ranged := False,
      is_break_on_read := r, is_break_on_write := w,
      TMemCheck.log_on_hit := lg, TMemCheck.break_on_hit := brk,
      TMemCheck.condition := (if cond \<noteq> [] then TryParse env cond else None)\<rparr>"
  have "memchecks (AddAddressMBP env s addr r w lg brk cond) = MemChecks_Add ?check (memchecks s)"
    by (simp add: AddAddressMBP_def Let_def)
  moreover have "ranged_iff_ends_differ ?check"
    by (simp add: ranged_iff_ends_differ_def)
  ultimately show ?thesis
    using assms set_MemChecks_Add [of ?check "memchecks s"] by auto
qed

lemma EditMBP_keeps_ranged_invariant:
  assumes "EditMBP env s a edit string = Inr s'"
    and "\<forall>m \<in> set (memchecks s). ranged_iff_ends_differ m"
  shows "\<forall>m \<in> set (memchecks s'). ranged_iff_ends_differ m"
proof (cases "MemChecks_GetMemCheck a (memchecks s)")
  case None
  then show ?thesis using assms by (simp add: EditMBP_missing)
next
  case (Some old)
  show ?thesis
  proof (cases "if (edit = ADDRESS_COLUMN \<or> edit = END_ADDRESS_COLUMN) \<and> string \<noteq> None
          then (case toUInt16 env (the string) of
                  None \<Rightarrow> None
                | Some new_address \<Rightarrow>
                    if edit = ADDRESS_COLUMN then Some (new_address, end_address old, True)
                    else Some (start_address old, new_address, False))
          else Some (start_address old, end_address old, False)")
    case None
    then have "EditMBP env s a edit string = Inr s"
      unfolding EditMBP_def Some option.case Let_def by simp
    then show ?thesis using assms by simp
  next
    case (Some t)
    obtain b e changed where t: "t = (b, e, changed)" by (cases t)
    from EditMBP_done [OF \<open>MemChecks_GetMemCheck a (memchecks s) = Some old\<close> Some [unfolded t]]
    obtain mbp where mbp: "start_address mbp = b" "end_address mbp = e" "is_ranged mbp = (b \<noteq> e)"
      and run: "EditMBP env s a edit string =
          Inr (Update (emit BreakpointsChanged
            (s\<lparr>memchecks :=
                 (if changed then MemChecks_Remove a (MemChecks_Add mbp (memchecks s))
                  else MemChecks_Add mbp (memchecks s))\<rparr>)))"
      by blast
    have "ranged_iff_ends_differ mbp"
      using mbp by (simp add: ranged_iff_ends_differ_def)
    then have "\<forall>m \<in> set (MemChecks_Add mbp (memchecks s)). ranged_iff_ends_differ m"
      using assms(2) set_MemChecks_Add [of mbp "memchecks s"] by auto
    then show ?thesis
      using run assms(1) by (auto simp: MemChecks_Remove_def)
  qed
qed

lemma AddRangedMBP_entry:
  "\<exists>m. MemChecks_GetMemCheck from (memchecks (AddRangedMBP env s from to r w lg brk cond)) = Some m \<and>
      start_address m = from \<and> end_address m = to \<and> is_ranged m \<and>
      ranged_iff_ends_differ m = (from \<noteq> to)"
proof -
  let ?check = "(new_TMemCheck env)\<lparr>
      start_address := from, end_address := to, is_ranged := True,
      is_break_on_read := r, is_break_on_write := w,
      TMemCheck.log_on_hit := lg, TMemCheck.break_on_hit := brk,
      TMemCheck.condition := (if cond \<noteq> [] then TryParse env cond else None)\<rparr>"
  have "memchecks (AddRangedMBP env s from to r w lg brk cond) = MemChecks_Add ?check (memchecks s)"
    by (simp add: AddRangedMBP_def Let_def)
  moreover have "MemChecks_GetMemCheck from (MemChecks_Add ?check (memchecks s)) = Some ?check"
    using GetMemCheck_Add_same [of ?check "memchecks s"] by simp
  ultimately show ?thesis by (simp add: ranged_iff_ends_differ_def)
qed

text \<open>
  Claim C2 asks that a memory check made through the widget be ranged exactly when its
  two ends differ, also for \<^verbatim>\<open>AddRangedMBP\<close> with equal ends. \<^verbatim>\<open>AddAddressMBP\<close> and
  \<^verbatim>\<open>EditMBP\<close> keep this (the lemmas above); \<^verbatim>\<open>AddRangedMBP\<close> sets \<^verbatim>\<open>is_ranged\<close> whatever
  the ends are. At the example, \<^verbatim>\<open>AddRangedMBP\<close> from 80005000 to 80005000 stores an entry
  with equal ends that is ranged: the last component says whether the entry meets
  the invariant.
\<close>

theorem AddRangedMBP_equal_ends_is_ranged:
  "map (\<lambda>m. (start_address m, end_address m, is_ranged m, ranged_iff_ends_differ m))
     (memchecks (AddRangedMBP example_env example_widget 0x80005000 0x80005000 True True True True []))
   = [(0x80004000, 0x80004010, True, True), (0x80005000, 0x80005000, True, False)]"
  by (simp add: AddRangedMBP_def Let_def example_widget_def example_mbp_def example_env_def
      example_new_TMemCheck_def ranged_iff_ends_differ_def)

section \<open>Editing a memory check without changing its key\<close>

lemma EditMBP_other_edit_only_adds:
  assumes "MemChecks_GetMemCheck a (memchecks s) = Some old"
    and "\<not> (edit = ADDRESS_COLUMN \<and> string \<noteq> None)"
    and "\<not> (edit = END_ADDRESS_COLUMN \<and> string \<noteq> None \<and> toUInt16 env (the string) = None)"
    and "unique_start_addresses (memchecks s)"
  shows "\<exists>mbp s'. EditMBP env s a edit string = Inr s' \<and> start_address mbp = a \<and>
           memchecks s' = MemChecks_Add mbp (memchecks s) \<and>
           length (memchecks s') = length (memchecks s) \<and>
           length (filter (\<lambda>m. start_address m = a) (memchecks s')) = 1 \<and>
           MemChecks_GetMemCheck a (memchecks s') = Some mbp"
proof -
  have old: "start_address old = a" "a \<in> start_address ` set (memchecks s)"
    using GetMemCheck_start [OF assms(1)] by force+
  let ?e = "if edit = END_ADDRESS_COLUMN \<and> string \<noteq> None
            then the (toUInt16 env (the string)) else end_address old"
  have "(if (edit = ADDRESS_COLUMN \<or> edit = END_ADDRESS_COLUMN) \<and> string \<noteq> None
          then (case toUInt16 env (the string) of
                  None \<Rightarrow> None
                | Some new_address \<Rightarrow>
                    if edit = ADDRESS_COLUMN then Some (new_address, end_address old, True)
                    else Some (start_address old, new_address, False))
          else Some (start_address old, end_address old, False)) = Some (a, ?e, False)"
    using assms(2,3) old(1) by (auto split: option.splits)
  from EditMBP_done [OF assms(1) this]
  obtain mbp where mbp: "start_address mbp = a"
    and run: "EditMBP env s a edit string =
        Inr (Update (emit BreakpointsChanged (s\<lparr>memchecks := MemChecks_Add mbp (memchecks s)\<rparr>)))"
    by auto
  have "length (MemChecks_Add mbp (memchecks s)) = length (memchecks s)"
    using old(2) by (simp add: length_MemChecks_Add mbp)
  moreover have "length (filter (\<lambda>m. start_address m = a) (MemChecks_Add mbp (memchecks s))) = 1"
    using MemChecks_Add_one_at_start [OF assms(4), of mbp] by (simp add: mbp)
  moreover have "MemChecks_GetMemCheck a (MemChecks_Add mbp (memchecks s)) = Some mbp"
    using GetMemCheck_Add_same [of mbp "memchecks s"] by (simp add: mbp)
  ultimately show ?thesis using run mbp by auto
qed

text \<open>
  Claim C4 asks that an edit which does not change the start address only add, so that
  exactly one memory check with that start address is in the store afterwards. That
  holds for every edit of another column (the lemma above). At the example, the
  start address 80004000 edited with the text \<open>80004000\<close>, which does not change it, leaves
  no memory check at all: the entry is added and then removed.
\<close>

theorem EditMBP_same_address_text_loses_watch:
  "EditMBP example_env example_widget 0x80004000 ADDRESS_COLUMN (Some ''80004000'') =
     Inr (example_widget\<lparr>
       memchecks := [],
       m_table := [(0x80003000, False), (0x80003abc, False)],
       emitted := [BreakpointsChanged]\<rparr>)"
  by (simp add: EditMBP_def Let_def MemChecks_GetMemCheck_def MemChecks_Remove_def
      Update_def emit_def example_widget_def example_mbp_def example_bp_def example_temp_bp_def
      example_env_def example_new_TMemCheck_def hex_toUInt_def hex_digit_def)

section \<open>Toggling twice\<close>

lemma OnClicked_toggle:
  assumes "table_item (m_table s) row = Some (a, is_memcheck)"
  shows "OnClicked env s (Some (row, ENABLED_COLUMN)) =
     Inr (Update (emit BreakpointsChanged
       (if is_memcheck then s\<lparr>memchecks := MemChecks_ToggleBreakPoint a (memchecks s)\<rparr>
        else s\<lparr>breakpoints := BreakPoints_ToggleBreakPoint a (breakpoints s)\<rparr>)))"
  using assms by (simp add: OnClicked_def Let_def)

lemma OnClicked_toggle_twice:
  assumes "table_item (m_table s) row = Some (a, is_memcheck)"
    and "OnClicked env s (Some (row, ENABLED_COLUMN)) = Inr s1"
    and "table_item (m_table s1) row' = Some (a, is_memcheck)"
    and "OnClicked env s1 (Some (row', ENABLED_COLUMN)) = Inr s2"
  shows "breakpoints s2 = breakpoints s \<and> memchecks s2 = memchecks s"
  using assms(2,4) unfolding OnClicked_toggle [OF assms(1)] OnClicked_toggle [OF assms(3)]
  by (auto simp: BreakPoints_Toggle_twice MemChecks_Toggle_twice)

lemma OnClicked_toggle_keeps_rows:
  assumes "table_item (m_table s) row = Some (a, is_memcheck)"
    and "OnClicked env s (Some (row, ENABLED_COLUMN)) = Inr s1"
    and "m_table s = map (\<lambda>bp. (address bp, False)) (breakpoints s)
                      @ map (\<lambda>mbp. (start_address mbp, True)) (memchecks s)"
  shows "m_table s1 = m_table s"
proof -
  have "map (\<lambda>bp. (address bp, False)) (BreakPoints_ToggleBreakPoint a bps)
      = map (\<lambda>bp. (address bp, False)) bps" for bps :: "'a TBreakPoint list"
    unfolding BreakPoints_ToggleBreakPoint_def by (induction bps) auto
  moreover have "map (\<lambda>mbp. (start_address mbp, True)) (MemChecks_ToggleBreakPoint a mcs)
      = map (\<lambda>mbp. (start_address mbp, True)) mcs" for mcs :: "'a TMemCheck list"
    unfolding MemChecks_ToggleBreakPoint_def by (induction mcs) auto
  ultimately show ?thesis
    using assms(2,3) unfolding OnClicked_toggle [OF assms(1)]
    by (auto simp: Update_def emit_def)
qed

lemma EditBreakpoint_toggle:
  assumes "BreakPoints_GetBreakpoint a (breakpoints s) = Some old"
    and "EditBreakpoint env s a ENABLED_COLUMN None = Inr s1"
  shows "\<exists>bp. BreakPoints_GetBreakpoint a (breakpoints s1) = Some bp \<and>
      address bp = a \<and>
      TBreakPoint.is_enabled bp = (\<not> TBreakPoint.is_enabled old) \<and>
      TBreakPoint.log_on_hit bp = TBreakPoint.log_on_hit old \<and>
      TBreakPoint.break_on_hit bp = TBreakPoint.break_on_hit old \<and>
      is_temporary bp = is_temporary (new_TBreakPoint env)"
proof -
  have "(if ENABLED_COLUMN = ADDRESS_COLUMN \<and> (None :: string option) \<noteq> None
         then toUInt16 env (the None) else Some a) = Some a"
    by simp
  from EditBreakpoint_done [OF assms(1) this]
  obtain bp where bp: "address bp = a"
      "TBreakPoint.is_enabled bp = (\<not> TBreakPoint.is_enabled old)"
      "TBreakPoint.log_on_hit bp = TBreakPoint.log_on_hit old"
      "TBreakPoint.break_on_hit bp = TBreakPoint.break_on_hit old"
      "is_temporary bp = is_temporary (new_TBreakPoint env)"
    and run: "EditBreakpoint env s a ENABLED_COLUMN None =
        Inr (Update (emit BreakpointsChanged
          (s\<lparr>breakpoints := BreakPoints_Add bp (BreakPoints_Remove a (breakpoints s))\<rparr>)))"
    by auto
  have "BreakPoints_GetBreakpoint a (breakpoints s1) = Some bp"
    using run assms(2) GetBreakpoint_Add_same [of bp "BreakPoints_Remove a (breakpoints s)"]
    by (auto simp: bp(1))
  then show ?thesis using bp by blast
qed

lemma EditBreakpoint_toggle_twice:
  assumes "BreakPoints_GetBreakpoint a (breakpoints s) = Some old"
    and "EditBreakpoint env s a ENABLED_COLUMN None = Inr s1"
    and "EditBreakpoint env s1 a ENABLED_COLUMN None = Inr s2"
  shows "\<exists>bp. BreakPoints_GetBreakpoint a (breakpoints s2) = Some bp \<and>
      address bp = address old \<and>
      TBreakPoint.is_enabled bp = TBreakPoint.is_enabled old \<and>
      TBreakPoint.log_on_hit bp = TBreakPoint.log_on_hit old \<and>
      TBreakPoint.break_on_hit bp = TBreakPoint.break_on_hit old \<and>
      is_temporary bp = is_temporary (new_TBreakPoint env)"
proof -
  from EditBreakpoint_toggle [OF assms(1,2)]
  obtain bp1 where bp1: "BreakPoints_GetBreakpoint a (breakpoints s1) = Some bp1"
      "TBreakPoint.is_enabled bp1 = (\<not> TBreakPoint.is_enabled old)"
      "TBreakPoint.log_on_hit bp1 = TBreakPoint.log_on_hit old"
      "TBreakPoint.break_on_hit bp1 = TBreakPoint.break_on_hit old"
    by blast
  from EditBreakpoint_toggle [OF bp1(1) assms(3)] bp1(2-) GetBreakpoint_address [OF assms(1)]
  show ?thesis by auto
qed

text \<open>
  Claim C8 asks that toggling twice restore \<^verbatim>\<open>is_enabled\<close> and leave the other fields as
  they were. Two clicks do (the lemmas above), and two calls of \<^verbatim>\<open>EditBreakpoint\<close> with
  \<^verbatim>\<open>ENABLED_COLUMN\<close> restore \<^verbatim>\<open>is_enabled\<close>, the address and the two hit flags; but
  \<^verbatim>\<open>EditBreakpoint\<close> builds the entry anew and never copies \<^verbatim>\<open>is_temporary\<close>. At the
  example the temporary breakpoint at 80003abc is no longer temporary after the two
  calls.
\<close>

theorem EditBreakpoint_toggle_twice_loses_temporary:
  "calls example_env example_widget
     [Call_EditBreakpoint 0x80003abc ENABLED_COLUMN None,
      Call_EditBreakpoint 0x80003abc ENABLED_COLUMN None] =
   Inr (example_widget\<lparr>
     breakpoints := [example_bp, example_temp_bp\<lparr>is_temporary := False\<rparr>],
     emitted := [BreakpointsChanged, BreakpointsChanged]\<rparr>)"
  by (simp add: EditBreakpoint_def Let_def BreakPoints_GetBreakpoint_def BreakPoints_Remove_def
      BreakPoints_Add_def Update_def emit_def example_widget_def example_bp_def
      example_temp_bp_def example_mbp_def example_env_def example_new_TBreakPoint_def)

end
